theory Spec2Isabelle
  imports Main
begin

section \<open>Python values, exceptions and the two external collaborators\<close>

text \<open>
  The module \<^verbatim>\<open>docsvaultapi.py\<close> handles the tree that \<^verbatim>\<open>xmltodict.parse\<close> returns:
  \<^verbatim>\<open>None\<close> (an empty element), a \<^verbatim>\<open>str\<close>, a \<^verbatim>\<open>dict\<close> or a \<^verbatim>\<open>list\<close>; the wrappers add
  \<^verbatim>\<open>bool\<close>. A dict is an association list in insertion order whose keys are Python
  values (the dict comprehension of \<^verbatim>\<open>docsvault_get_file_profile\<close> uses field values as
  keys); lookup takes the first binding of a key, and the parser never repeats a key
  (repeated elements become one list). The only comparisons the module makes are against
  string literals and \<^verbatim>\<open>None\<close>, where HOL equality and Python's \<^verbatim>\<open>==\<close> agree. Text is a
  \<^typ>\<open>string\<close>; the module only concatenates strings, compares them and strips slashes.
\<close>

datatype pyval =
    PNone
  | PStr string
  | PBool bool
  | PDict "(pyval \<times> pyval) list"
  | PList "pyval list"

text \<open>
  Every \<^verbatim>\<open>raise\<close> of the module and every exception of the operations it uses on values
  is a constructor. \<^verbatim>\<open>OtherError\<close> stands for whatever the HTTP client or the XML parser
  raise themselves.
\<close>

datatype error =
    RequestException string
  | ValueError string
  | KeyError string
  | TypeError
  | AttributeError
  | OtherError string

definition ebind :: "error + 'a \<Rightarrow> ('a \<Rightarrow> error + 'b) \<Rightarrow> error + 'b" where
  "ebind m f = (case m of Inl e \<Rightarrow> Inl e | Inr v \<Rightarrow> f v)"

datatype http_method = GET | POST

record request =
  http_method :: http_method
  url :: string
  params :: "(string \<times> string) list"

record response =
  status_code :: int
  content :: string

text \<open>\<^verbatim>\<open>requests.get\<close> / \<^verbatim>\<open>requests.post\<close>, and \<^verbatim>\<open>xmltodict.parse\<close>.\<close>

type_synonym transport = "request \<Rightarrow> error + response"
type_synonym parser = "string \<Rightarrow> error + pyval"

subsection \<open>The Python operations the module applies to values\<close>

text \<open>\<^verbatim>\<open>s.rstrip(chars)\<close>: drop the longest suffix made of characters of \<^verbatim>\<open>chars\<close>.\<close>

definition rstrip :: "string \<Rightarrow> string \<Rightarrow> string" where
  "rstrip s chars = rev (dropWhile (\<lambda>c. c \<in> set chars) (rev s))"

text \<open>\<^verbatim>\<open>str(n)\<close> for an int.\<close>

definition digit_char :: "nat \<Rightarrow> char" where
  "digit_char d = ''0123456789'' ! d"

fun str_nat :: "nat \<Rightarrow> string" where
  "str_nat n = (if n < 10 then [digit_char n] else str_nat (n div 10) @ [digit_char (n mod 10)])"

declare str_nat.simps [simp del]

definition str_int :: "int \<Rightarrow> string" where
  "str_int i = (if i < 0 then CHR ''-'' # str_nat (nat (- i)) else str_nat (nat i))"

text \<open>\<^verbatim>\<open>d[k]\<close> with a string key: only a dict can be subscripted by a string.\<close>

fun getitem :: "pyval \<Rightarrow> string \<Rightarrow> error + pyval" where
  "getitem (PDict kvs) k = (case map_of kvs (PStr k) of Some v \<Rightarrow> Inr v | None \<Rightarrow> Inl (KeyError k))"
| "getitem PNone k = Inl TypeError"
| "getitem (PStr s) k = Inl TypeError"
| "getitem (PBool b) k = Inl TypeError"
| "getitem (PList xs) k = Inl TypeError"

text \<open>\<^verbatim>\<open>d[k1][k2]...\<close>, evaluated left to right.\<close>

fun getpath :: "pyval \<Rightarrow> string list \<Rightarrow> error + pyval" where
  "getpath d [] = Inr d"
| "getpath d (k # ks) = ebind (getitem d k) (\<lambda>v. getpath v ks)"

text \<open>\<^verbatim>\<open>d.get(k, default)\<close>: only a dict has the method; \<^verbatim>\<open>d.get(k)\<close> is \<^verbatim>\<open>d.get(k, None)\<close>.\<close>

fun get_default :: "pyval \<Rightarrow> string \<Rightarrow> pyval \<Rightarrow> error + pyval" where
  "get_default (PDict kvs) k d = Inr (case map_of kvs (PStr k) of Some v \<Rightarrow> v | None \<Rightarrow> d)"
| "get_default PNone k d = Inl AttributeError"
| "get_default (PStr s) k d = Inl AttributeError"
| "get_default (PBool b) k d = Inl AttributeError"
| "get_default (PList xs) k d = Inl AttributeError"

definition get :: "pyval \<Rightarrow> string \<Rightarrow> error + pyval" where
  "get d k = get_default d k PNone"

text \<open>\<^verbatim>\<open>"literal" + v\<close>: concatenation needs a \<^verbatim>\<open>str\<close> on the right.\<close>

fun str_add :: "string \<Rightarrow> pyval \<Rightarrow> error + string" where
  "str_add s (PStr t) = Inr (s @ t)"
| "str_add s PNone = Inl TypeError"
| "str_add s (PBool b) = Inl TypeError"
| "str_add s (PDict kvs) = Inl TypeError"
| "str_add s (PList xs) = Inl TypeError"

text \<open>\<^verbatim>\<open>isinstance(v, dict)\<close>.\<close>

fun isinstance_dict :: "pyval \<Rightarrow> bool" where
  "isinstance_dict (PDict kvs) = True"
| "isinstance_dict PNone = False"
| "isinstance_dict (PStr s) = False"
| "isinstance_dict (PBool b) = False"
| "isinstance_dict (PList xs) = False"

text \<open>
  \<^verbatim>\<open>for x in v\<close>: a list yields its elements, a dict its keys, a string its characters
  (each a string of length one); \<^verbatim>\<open>None\<close> and booleans are not iterable.
\<close>

fun iter :: "pyval \<Rightarrow> error + pyval list" where
  "iter (PList xs) = Inr xs"
| "iter (PDict kvs) = Inr (map fst kvs)"
| "iter (PStr s) = Inr (map (\<lambda>c. PStr [c]) s)"
| "iter PNone = Inl TypeError"
| "iter (PBool b) = Inl TypeError"

text \<open>Evaluating a sequence of expressions in order: the first exception wins.\<close>

fun sequence :: "(error + 'a) list \<Rightarrow> error + 'a list" where
  "sequence [] = Inr []"
| "sequence (m # ms) = ebind m (\<lambda>v. ebind (sequence ms) (\<lambda>vs. Inr (v # vs)))"

text \<open>A dict display \<^verbatim>\<open>{"k1": e1, "k2": e2, ...}\<close> with distinct literal keys.\<close>

definition dict_literal :: "(string \<times> (error + pyval)) list \<Rightarrow> error + pyval" where
  "dict_literal kes =
     ebind (sequence (map snd kes)) (\<lambda>vs. Inr (PDict (zip (map (PStr \<circ> fst) kes) vs)))"

text \<open>A list comprehension \<^verbatim>\<open>[f(x) for x in v]\<close>.\<close>

definition list_comp :: "(pyval \<Rightarrow> error + pyval) \<Rightarrow> pyval \<Rightarrow> error + pyval" where
  "list_comp f v = ebind (iter v) (\<lambda>xs. ebind (sequence (map f xs)) (\<lambda>ys. Inr (PList ys)))"

text \<open>
  A dict comprehension \<^verbatim>\<open>{kf(x): vf(x) for x in v}\<close>: for each element the key expression,
  then the value expression, then the store, which needs a hashable key (dicts and lists
  are not) and overwrites the value of a key already present, keeping its position.
\<close>

fun hashable :: "pyval \<Rightarrow> bool" where
  "hashable (PDict kvs) = False"
| "hashable (PList xs) = False"
| "hashable PNone = True"
| "hashable (PStr s) = True"
| "hashable (PBool b) = True"

fun setitem :: "(pyval \<times> pyval) list \<Rightarrow> pyval \<Rightarrow> pyval \<Rightarrow> (pyval \<times> pyval) list" where
  "setitem [] k v = [(k, v)]"
| "setitem ((k', v') # kvs) k v = (if k' = k then (k', v) # kvs else (k', v') # setitem kvs k v)"

fun dict_comp_loop ::
  "(pyval \<Rightarrow> error + pyval) \<Rightarrow> (pyval \<Rightarrow> error + pyval) \<Rightarrow> pyval list \<Rightarrow> (pyval \<times> pyval) list
     \<Rightarrow> error + (pyval \<times> pyval) list" where
  "dict_comp_loop kf vf [] acc = Inr acc"
| "dict_comp_loop kf vf (x # xs) acc =
     ebind (kf x) (\<lambda>k. ebind (vf x) (\<lambda>v.
       if hashable k then dict_comp_loop kf vf xs (setitem acc k v) else Inl TypeError))"

definition dict_comp ::
  "(pyval \<Rightarrow> error + pyval) \<Rightarrow> (pyval \<Rightarrow> error + pyval) \<Rightarrow> pyval \<Rightarrow> error + pyval" where
  "dict_comp kf vf v =
     ebind (iter v) (\<lambda>xs. ebind (dict_comp_loop kf vf xs []) (\<lambda>kvs. Inr (PDict kvs)))"

section \<open>Session operations\<close>

text \<open>
  Each function of the module is split where it calls the HTTP client and where it
  branches on the envelope's status: the request it builds, what it does with the
  response up to the status check, and the branch it takes when the check passes.
  The function itself is their composition through the transport.
\<close>

text \<open>\<^verbatim>\<open>docsvault_login\<close>, lines 4-60. The request goes to \<^verbatim>\<open>full_api_url + action\<close> (line 40).\<close>

definition docsvault_login_request ::
  "string \<Rightarrow> string \<Rightarrow> string \<Rightarrow> request" where
  "docsvault_login_request username password api_url =
     (let action = ''Login'';
          params = [(''UserName'', username), (''Password'', password)];
          full_api_url = rstrip api_url ''/'' @ ''/DocsvaultAPI/'' @ action
      in \<lparr>http_method = GET, url = full_api_url @ action, params = params\<rparr>)"

definition docsvault_login_success :: "pyval \<Rightarrow> error + pyval" where
  "docsvault_login_success response_dict =
     ebind (getpath response_dict [''Docsvault'', ''Result'', ''TokenID'']) (\<lambda>token_id.
     if token_id = PNone \<or> token_id = PStr '''' then
       Inl (ValueError ''Login failed. Token ID not found in API response.'')
     else Inr token_id)"

definition docsvault_login_response :: "parser \<Rightarrow> response \<Rightarrow> error + pyval" where
  "docsvault_login_response parse response =
     (if status_code response = 200 then
        ebind (parse (content response)) (\<lambda>response_dict.
        ebind (getpath response_dict [''Docsvault'', ''Response'', ''StatusCode'']) (\<lambda>status.
        if status = PStr ''1'' then
          ebind (getpath response_dict [''Docsvault'', ''Response'', ''Message'']) (\<lambda>error_message.
          ebind (str_add ''Login failed. '' error_message) (\<lambda>msg. Inl (ValueError msg)))
        else
          docsvault_login_success response_dict))
      else Inl (RequestException
             (''Login request failed with status code: '' @ str_int (status_code response))))"

definition docsvault_login ::
  "transport \<Rightarrow> parser \<Rightarrow> string \<Rightarrow> string \<Rightarrow> string \<Rightarrow> error + pyval" where
  "docsvault_login http parse username password api_url =
     ebind (http (docsvault_login_request username password api_url))
       (docsvault_login_response parse)"

text \<open>\<^verbatim>\<open>docsvault_login_post\<close>, lines 62-119.\<close>

definition docsvault_login_post_request ::
  "string \<Rightarrow> string \<Rightarrow> string \<Rightarrow> request" where
  "docsvault_login_post_request username password api_url =
     (let action = ''LoginPost'';
          params = [(''UserName'', username), (''Password'', password)];
          full_api_url = rstrip api_url ''/'' @ ''/DocsvaultAPI/'' @ action
      in \<lparr>http_method = POST, url = full_api_url, params = params\<rparr>)"

definition docsvault_login_post_success :: "pyval \<Rightarrow> error + pyval" where
  "docsvault_login_post_success response_dict =
     ebind (getpath response_dict [''Docsvault'', ''Result'']) (\<lambda>token_id.
     if token_id = PNone \<or> token_id = PStr '''' then
       Inl (ValueError ''Login failed. Token ID not found in API response.'')
     else Inr token_id)"

definition docsvault_login_post_response :: "parser \<Rightarrow> response \<Rightarrow> error + pyval" where
  "docsvault_login_post_response parse response =
     (if status_code response = 200 then
        ebind (parse (content response)) (\<lambda>response_dict.
        ebind (getpath response_dict [''Docsvault'', ''Response'', ''StatusCode'']) (\<lambda>status.
        if status = PStr ''1'' then
          ebind (getpath response_dict [''Docsvault'', ''Response'', ''Message'']) (\<lambda>error_message.
          ebind (str_add ''Login failed. '' error_message) (\<lambda>msg. Inl (ValueError msg)))
        else
          docsvault_login_post_success response_dict))
      else Inl (RequestException
             (''Login request failed with status code: '' @ str_int (status_code response))))"

definition docsvault_login_post ::
  "transport \<Rightarrow> parser \<Rightarrow> string \<Rightarrow> string \<Rightarrow> string \<Rightarrow> error + pyval" where
  "docsvault_login_post http parse username password api_url =
     ebind (http (docsvault_login_post_request username password api_url))
       (docsvault_login_post_response parse)"

text \<open>\<^verbatim>\<open>docsvault_logout\<close>, lines 121-165. When the check passes the function falls off its end: it returns \<^verbatim>\<open>None\<close>.\<close>

definition docsvault_logout_request ::
  "string \<Rightarrow> string \<Rightarrow> string \<Rightarrow> request" where
  "docsvault_logout_request token_id username api_url =
     (let action = ''Logout'';
          params = [(''TokenID'', token_id), (''UserName'', username)];
          full_api_url = rstrip api_url ''/'' @ ''/DocsvaultAPI/'' @ action
      in \<lparr>http_method = GET, url = full_api_url, params = params\<rparr>)"

definition docsvault_logout_success :: "pyval \<Rightarrow> error + pyval" where
  "docsvault_logout_success response_dict =
     Inr PNone"

definition docsvault_logout_response :: "parser \<Rightarrow> response \<Rightarrow> error + pyval" where
  "docsvault_logout_response parse response =
     (if status_code response = 200 then
        ebind (parse (content response)) (\<lambda>response_dict.
        ebind (getpath response_dict [''Docsvault'', ''Response'', ''StatusCode'']) (\<lambda>status.
        if status = PStr ''1'' then
          ebind (getpath response_dict [''Docsvault'', ''Response'', ''Message'']) (\<lambda>error_message.
          ebind (str_add ''Logout failed. '' error_message) (\<lambda>msg. Inl (ValueError msg)))
        else
          docsvault_logout_success response_dict))
      else Inl (RequestException
             (''Logout request failed with status code: '' @ str_int (status_code response))))"

definition docsvault_logout ::
  "transport \<Rightarrow> parser \<Rightarrow> string \<Rightarrow> string \<Rightarrow> string \<Rightarrow> error + pyval" where
  "docsvault_logout http parse token_id username api_url =
     ebind (http (docsvault_logout_request token_id username api_url))
       (docsvault_logout_response parse)"

text \<open>\<^verbatim>\<open>docsvault_get_login_user_id\<close>, lines 167-213.\<close>

definition docsvault_get_login_user_id_request ::
  "string \<Rightarrow> string \<Rightarrow> request" where
  "docsvault_get_login_user_id_request token_id api_url =
     (let action = ''GetLoginUserID'';
          params = [(''TokenID'', token_id)];
          full_api_url = rstrip api_url ''/'' @ ''/DocsvaultAPI/'' @ action
      in \<lparr>http_method = GET, url = full_api_url, params = params\<rparr>)"

definition docsvault_get_login_user_id_success :: "pyval \<Rightarrow> error + pyval" where
  "docsvault_get_login_user_id_success response_dict =
     ebind (getpath response_dict [''Docsvault'', ''Result'', ''UserID'']) (\<lambda>user_id.
     if user_id = PNone \<or> user_id = PStr '''' then
       Inl (ValueError ''GetLoginUserID failed. User ID not found in API response.'')
     else Inr user_id)"

definition docsvault_get_login_user_id_response :: "parser \<Rightarrow> response \<Rightarrow> error + pyval" where
  "docsvault_get_login_user_id_response parse response =
     (if status_code response = 200 then
        ebind (parse (content response)) (\<lambda>response_dict.
        ebind (getpath response_dict [''Docsvault'', ''Response'', ''StatusCode'']) (\<lambda>status.
        if status = PStr ''1'' then
          ebind (getpath response_dict [''Docsvault'', ''Response'', ''Message'']) (\<lambda>error_message.
          ebind (str_add ''GetLoginUserID failed. '' error_message) (\<lambda>msg. Inl (ValueError msg)))
        else
          docsvault_get_login_user_id_success response_dict))
      else Inl (RequestException
             (''GetLoginUserID request failed with status code: '' @ str_int (status_code response))))"

definition docsvault_get_login_user_id ::
  "transport \<Rightarrow> parser \<Rightarrow> string \<Rightarrow> string \<Rightarrow> error + pyval" where
  "docsvault_get_login_user_id http parse token_id api_url =
     ebind (http (docsvault_get_login_user_id_request token_id api_url))
       (docsvault_get_login_user_id_response parse)"

section \<open>User operations\<close>

text \<open>\<^verbatim>\<open>docsvault_get_user_details_by_name\<close>, lines 215-271.\<close>

definition docsvault_get_user_details_by_name_request ::
  "string \<Rightarrow> string \<Rightarrow> string \<Rightarrow> request" where
  "docsvault_get_user_details_by_name_request token_id user_name api_url =
     (let action = ''UserDetails/GetUserDetailsByName'';
          params = [(''TokenID'', token_id), (''UserName'', user_name)];
          full_api_url = rstrip api_url ''/'' @ ''/DocsvaultAPI/'' @ action
      in \<lparr>http_method = GET, url = full_api_url, params = params\<rparr>)"

definition docsvault_get_user_details_by_name_success :: "pyval \<Rightarrow> error + pyval" where
  "docsvault_get_user_details_by_name_success response_dict =
     ebind (getpath response_dict [''Docsvault'', ''Result'', ''UserDetail'']) (\<lambda>user_detail.
     dict_literal
      [(''user_id'', getitem user_detail ''UserID''),
       (''user_name'', getitem user_detail ''UserName''),
       (''full_name'', getitem user_detail ''UserFullName''),
       (''description'', getitem user_detail ''UserDescription''),
       (''email'', getitem user_detail ''UserEmail''),
       (''dv_authentication'', getitem user_detail ''DVAuthentication''),
       (''web_access'', getitem user_detail ''WebAccess''),
       (''license_type'', getitem user_detail ''LicenseType'')])"

definition docsvault_get_user_details_by_name_response :: "parser \<Rightarrow> response \<Rightarrow> error + pyval" where
  "docsvault_get_user_details_by_name_response parse response =
     (if status_code response = 200 then
        ebind (parse (content response)) (\<lambda>response_dict.
        ebind (getpath response_dict [''Docsvault'', ''Response'', ''StatusCode'']) (\<lambda>status.
        if status = PStr ''0'' then
          docsvault_get_user_details_by_name_success response_dict
        else
          ebind (getpath response_dict [''Docsvault'', ''Response'', ''Message'']) (\<lambda>error_message.
          ebind (str_add ''Could not get user details. '' error_message) (\<lambda>msg. Inl (ValueError msg)))))
      else Inl (RequestException
             (''Could not get user details. Status code: '' @ str_int (status_code response))))"

definition docsvault_get_user_details_by_name ::
  "transport \<Rightarrow> parser \<Rightarrow> string \<Rightarrow> string \<Rightarrow> string \<Rightarrow> error + pyval" where
  "docsvault_get_user_details_by_name http parse token_id user_name api_url =
     ebind (http (docsvault_get_user_details_by_name_request token_id user_name api_url))
       (docsvault_get_user_details_by_name_response parse)"

text \<open>\<^verbatim>\<open>docsvault_get_user_details_by_id\<close>, lines 273-329.\<close>

definition docsvault_get_user_details_by_id_request ::
  "string \<Rightarrow> string \<Rightarrow> string \<Rightarrow> request" where
  "docsvault_get_user_details_by_id_request token_id user_id api_url =
     (let action = ''UserDetails/GetUserDetailsByID'';
          params = [(''TokenID'', token_id), (''UserID'', user_id)];
          full_api_url = rstrip api_url ''/'' @ ''/DocsvaultAPI/'' @ action
      in \<lparr>http_method = GET, url = full_api_url, params = params\<rparr>)"

definition docsvault_get_user_details_by_id_success :: "pyval \<Rightarrow> error + pyval" where
  "docsvault_get_user_details_by_id_success response_dict =
     ebind (getpath response_dict [''Docsvault'', ''Result'', ''UserDetail'']) (\<lambda>user_detail.
     dict_literal
      [(''user_id'', getitem user_detail ''UserID''),
       (''user_name'', getitem user_detail ''UserName''),
       (''full_name'', getitem user_detail ''UserFullName''),
       (''description'', getitem user_detail ''UserDescription''),
       (''email'', getitem user_detail ''UserEmail''),
       (''dv_authentication'', getitem user_detail ''DVAuthentication''),
       (''web_access'', getitem user_detail ''WebAccess''),
       (''license_type'', getitem user_detail ''LicenseType'')])"

definition docsvault_get_user_details_by_id_response :: "parser \<Rightarrow> response \<Rightarrow> error + pyval" where
  "docsvault_get_user_details_by_id_response parse response =
     (if status_code response = 200 then
        ebind (parse (content response)) (\<lambda>response_dict.
        ebind (getpath response_dict [''Docsvault'', ''Response'', ''StatusCode'']) (\<lambda>status.
        if status = PStr ''0'' then
          docsvault_get_user_details_by_id_success response_dict
        else
          ebind (getpath response_dict [''Docsvault'', ''Response'', ''Message'']) (\<lambda>error_message.
          ebind (str_add ''Could not get user details. '' error_message) (\<lambda>msg. Inl (ValueError msg)))))
      else Inl (RequestException
             (''Could not get user details. Status code: '' @ str_int (status_code response))))"

definition docsvault_get_user_details_by_id ::
  "transport \<Rightarrow> parser \<Rightarrow> string \<Rightarrow> string \<Rightarrow> string \<Rightarrow> error + pyval" where
  "docsvault_get_user_details_by_id http parse token_id user_id api_url =
     ebind (http (docsvault_get_user_details_by_id_request token_id user_id api_url))
       (docsvault_get_user_details_by_id_response parse)"

text \<open>\<^verbatim>\<open>docsvault_get_user_details_by_email\<close>, lines 331-387.\<close>

definition docsvault_get_user_details_by_email_request ::
  "string \<Rightarrow> string \<Rightarrow> string \<Rightarrow> request" where
  "docsvault_get_user_details_by_email_request token_id email api_url =
     (let action = ''UserDetails/GetUserDetailsByEmailID'';
          params = [(''TokenID'', token_id), (''EmailID'', email)];
          full_api_url = rstrip api_url ''/'' @ ''/DocsvaultAPI/'' @ action
      in \<lparr>http_method = GET, url = full_api_url, params = params\<rparr>)"

definition docsvault_get_user_details_by_email_success :: "pyval \<Rightarrow> error + pyval" where
  "docsvault_get_user_details_by_email_success response_dict =
     ebind (getpath response_dict [''Docsvault'', ''Result'', ''UserDetail'']) (\<lambda>user_detail.
     dict_literal
      [(''user_id'', getitem user_detail ''UserID''),
       (''user_name'', getitem user_detail ''UserName''),
       (''full_name'', getitem user_detail ''UserFullName''),
       (''description'', getitem user_detail ''UserDescription''),
       (''email'', getitem user_detail ''UserEmail''),
       (''dv_authentication'', getitem user_detail ''DVAuthentication''),
       (''web_access'', getitem user_detail ''WebAccess''),
       (''license_type'', getitem user_detail ''LicenseType'')])"

definition docsvault_get_user_details_by_email_response :: "parser \<Rightarrow> response \<Rightarrow> error + pyval" where
  "docsvault_get_user_details_by_email_response parse response =
     (if status_code response = 200 then
        ebind (parse (content response)) (\<lambda>response_dict.
        ebind (getpath response_dict [''Docsvault'', ''Response'', ''StatusCode'']) (\<lambda>status.
        if status = PStr ''0'' then
          docsvault_get_user_details_by_email_success response_dict
        else
          ebind (getpath response_dict [''Docsvault'', ''Response'', ''Message'']) (\<lambda>error_message.
          ebind (str_add ''Could not get user details. '' error_message) (\<lambda>msg. Inl (ValueError msg)))))
      else Inl (RequestException
             (''Could not get user details. Status code: '' @ str_int (status_code response))))"

definition docsvault_get_user_details_by_email ::
  "transport \<Rightarrow> parser \<Rightarrow> string \<Rightarrow> string \<Rightarrow> string \<Rightarrow> error + pyval" where
  "docsvault_get_user_details_by_email http parse token_id email api_url =
     ebind (http (docsvault_get_user_details_by_email_request token_id email api_url))
       (docsvault_get_user_details_by_email_response parse)"

text \<open>\<^verbatim>\<open>docsvault_get_readonly_users\<close>, lines 389-445.\<close>

definition docsvault_get_readonly_users_request ::
  "string \<Rightarrow> string \<Rightarrow> request" where
  "docsvault_get_readonly_users_request token_id api_url =
     (let action = ''UserDetails/GetReadonlyUsers'';
          params = [(''TokenID'', token_id)];
          full_api_url = rstrip api_url ''/'' @ ''/DocsvaultAPI/'' @ action
      in \<lparr>http_method = GET, url = full_api_url, params = params\<rparr>)"

definition docsvault_get_readonly_users_success :: "pyval \<Rightarrow> error + pyval" where
  "docsvault_get_readonly_users_success response_dict =
     ebind (getpath response_dict [''Docsvault'', ''Result'', ''UserDetail'']) (\<lambda>user_details.
     let user_details = (if isinstance_dict user_details then PList [user_details] else user_details) in
     list_comp (\<lambda>user_detail. dict_literal
      [(''user_id'', getitem user_detail ''UserID''),
       (''user_name'', getitem user_detail ''UserName''),
       (''full_name'', getitem user_detail ''UserFullName''),
       (''description'', getitem user_detail ''UserDescription''),
       (''email'', getitem user_detail ''UserEmail''),
       (''dv_authentication'', getitem user_detail ''DVAuthentication''),
       (''web_access'', getitem user_detail ''WebAccess''),
       (''license_type'', getitem user_detail ''LicenseType'')]) user_details)"

definition docsvault_get_readonly_users_response :: "parser \<Rightarrow> response \<Rightarrow> error + pyval" where
  "docsvault_get_readonly_users_response parse response =
     (if status_code response = 200 then
        ebind (parse (content response)) (\<lambda>response_dict.
        ebind (getpath response_dict [''Docsvault'', ''Response'', ''StatusCode'']) (\<lambda>status.
        if status = PStr ''0'' then
          docsvault_get_readonly_users_success response_dict
        else
          ebind (getpath response_dict [''Docsvault'', ''Response'', ''Message'']) (\<lambda>error_message.
          ebind (str_add ''Could not get readonly users. '' error_message) (\<lambda>msg. Inl (ValueError msg)))))
      else Inl (RequestException
             (''Could not get readonly users. Status code: '' @ str_int (status_code response))))"

definition docsvault_get_readonly_users ::
  "transport \<Rightarrow> parser \<Rightarrow> string \<Rightarrow> string \<Rightarrow> error + pyval" where
  "docsvault_get_readonly_users http parse token_id api_url =
     ebind (http (docsvault_get_readonly_users_request token_id api_url))
       (docsvault_get_readonly_users_response parse)"

text \<open>\<^verbatim>\<open>docsvault_get_webaccess_users\<close>, lines 447-502.\<close>

definition docsvault_get_webaccess_users_request ::
  "string \<Rightarrow> string \<Rightarrow> request" where
  "docsvault_get_webaccess_users_request token_id api_url =
     (let action = ''UserDetails/GetWebAccessUsers'';
          params = [(''TokenID'', token_id)];
          full_api_url = rstrip api_url ''/'' @ ''/DocsvaultAPI/'' @ action
      in \<lparr>http_method = GET, url = full_api_url, params = params\<rparr>)"

definition docsvault_get_webaccess_users_success :: "pyval \<Rightarrow> error + pyval" where
  "docsvault_get_webaccess_users_success response_dict =
     ebind (getpath response_dict [''Docsvault'', ''Result'', ''UserDetail'']) (\<lambda>user_details.
     let user_details = (if isinstance_dict user_details then PList [user_details] else user_details) in
     list_comp (\<lambda>user_detail. dict_literal
      [(''user_id'', getitem user_detail ''UserID''),
       (''user_name'', getitem user_detail ''UserName''),
       (''full_name'', getitem user_detail ''UserFullName''),
       (''description'', getitem user_detail ''UserDescription''),
       (''email'', getitem user_detail ''UserEmail''),
       (''dv_authentication'', getitem user_detail ''DVAuthentication''),
       (''web_access'', getitem user_detail ''WebAccess''),
       (''license_type'', getitem user_detail ''LicenseType'')]) user_details)"

definition docsvault_get_webaccess_users_response :: "parser \<Rightarrow> response \<Rightarrow> error + pyval" where
  "docsvault_get_webaccess_users_response parse response =
     (if status_code response = 200 then
        ebind (parse (content response)) (\<lambda>response_dict.
        ebind (getpath response_dict [''Docsvault'', ''Response'', ''StatusCode'']) (\<lambda>status.
        if status = PStr ''0'' then
          docsvault_get_webaccess_users_success response_dict
        else
          ebind (getpath response_dict [''Docsvault'', ''Response'', ''Message'']) (\<lambda>error_message.
          ebind (str_add ''Could not get Web Access users. '' error_message) (\<lambda>msg. Inl (ValueError msg)))))
      else Inl (RequestException
             (''Could not get Web Access users. Status code: '' @ str_int (status_code response))))"

definition docsvault_get_webaccess_users ::
  "transport \<Rightarrow> parser \<Rightarrow> string \<Rightarrow> string \<Rightarrow> error + pyval" where
  "docsvault_get_webaccess_users http parse token_id api_url =
     ebind (http (docsvault_get_webaccess_users_request token_id api_url))
       (docsvault_get_webaccess_users_response parse)"

text \<open>\<^verbatim>\<open>docsvault_get_user_groups\<close>, lines 504-556 (the first definition of the name, shadowed by the second).\<close>

definition docsvault_get_user_groups_1_request ::
  "string \<Rightarrow> string \<Rightarrow> string \<Rightarrow> request" where
  "docsvault_get_user_groups_1_request token_id user_id api_url =
     (let action = ''UserDetails/GetUserGroup'';
          params = [(''TokenID'', token_id), (''UserID'', user_id)];
          full_api_url = rstrip api_url ''/'' @ ''/DocsvaultAPI/'' @ action
      in \<lparr>http_method = GET, url = full_api_url, params = params\<rparr>)"

definition docsvault_get_user_groups_1_success :: "pyval \<Rightarrow> error + pyval" where
  "docsvault_get_user_groups_1_success response_dict =
     ebind (getpath response_dict [''Docsvault'', ''Result'', ''Group'']) (\<lambda>group_details.
     let group_details = (if isinstance_dict group_details then PList [group_details] else group_details) in
     list_comp (\<lambda>group_detail. dict_literal
      [(''group_name'', getitem group_detail ''GroupName''),
       (''group_id'', getitem group_detail ''GroupID''),
       (''description'', getitem group_detail ''Description'')]) group_details)"

definition docsvault_get_user_groups_1_response :: "parser \<Rightarrow> response \<Rightarrow> error + pyval" where
  "docsvault_get_user_groups_1_response parse response =
     (if status_code response = 200 then
        ebind (parse (content response)) (\<lambda>response_dict.
        ebind (getpath response_dict [''Docsvault'', ''Response'', ''StatusCode'']) (\<lambda>status.
        if status = PStr ''0'' then
          docsvault_get_user_groups_1_success response_dict
        else
          ebind (getpath response_dict [''Docsvault'', ''Response'', ''Message'']) (\<lambda>error_message.
          ebind (str_add ''Could not get user groups. '' error_message) (\<lambda>msg. Inl (ValueError msg)))))
      else Inl (RequestException
             (''Could not get user groups. Status code: '' @ str_int (status_code response))))"

definition docsvault_get_user_groups_1 ::
  "transport \<Rightarrow> parser \<Rightarrow> string \<Rightarrow> string \<Rightarrow> string \<Rightarrow> error + pyval" where
  "docsvault_get_user_groups_1 http parse token_id user_id api_url =
     ebind (http (docsvault_get_user_groups_1_request token_id user_id api_url))
       (docsvault_get_user_groups_1_response parse)"

text \<open>\<^verbatim>\<open>docsvault_get_connected_users\<close>, lines 558-615.\<close>

definition docsvault_get_connected_users_request ::
  "string \<Rightarrow> string \<Rightarrow> request" where
  "docsvault_get_connected_users_request token_id api_url =
     (let action = ''UserDetails/GetConnectedUsers'';
          params = [(''TokenID'', token_id)];
          full_api_url = rstrip api_url ''/'' @ ''/DocsvaultAPI/'' @ action
      in \<lparr>http_method = GET, url = full_api_url, params = params\<rparr>)"

definition docsvault_get_connected_users_success :: "pyval \<Rightarrow> error + pyval" where
  "docsvault_get_connected_users_success response_dict =
     ebind (getpath response_dict [''Docsvault'', ''Result'', ''UserDetail'']) (\<lambda>user_details.
     let user_details = (if isinstance_dict user_details then PList [user_details] else user_details) in
     list_comp (\<lambda>user_detail. dict_literal
      [(''user_id'', getitem user_detail ''UserID''),
       (''user_name'', getitem user_detail ''UserName''),
       (''full_name'', getitem user_detail ''UserFullName''),
       (''description'', getitem user_detail ''UserDescription''),
       (''email'', getitem user_detail ''UserEmail''),
       (''dv_authentication'', getitem user_detail ''DVAuthentication''),
       (''web_access'', getitem user_detail ''WebAccess''),
       (''login_from'', getitem user_detail ''LoginFrom''),
       (''license_type'', getitem user_detail ''LicenseType'')]) user_details)"

definition docsvault_get_connected_users_response :: "parser \<Rightarrow> response \<Rightarrow> error + pyval" where
  "docsvault_get_connected_users_response parse response =
     (if status_code response = 200 then
        ebind (parse (content response)) (\<lambda>response_dict.
        ebind (getpath response_dict [''Docsvault'', ''Response'', ''StatusCode'']) (\<lambda>status.
        if status = PStr ''0'' then
          docsvault_get_connected_users_success response_dict
        else
          ebind (getpath response_dict [''Docsvault'', ''Response'', ''Message'']) (\<lambda>error_message.
          ebind (str_add ''Could not get connected users. '' error_message) (\<lambda>msg. Inl (ValueError msg)))))
      else Inl (RequestException
             (''Could not get connected users. Status code: '' @ str_int (status_code response))))"

definition docsvault_get_connected_users ::
  "transport \<Rightarrow> parser \<Rightarrow> string \<Rightarrow> string \<Rightarrow> error + pyval" where
  "docsvault_get_connected_users http parse token_id api_url =
     ebind (http (docsvault_get_connected_users_request token_id api_url))
       (docsvault_get_connected_users_response parse)"

text \<open>\<^verbatim>\<open>docsvault_get_user_groups\<close>, lines 617-669 (the second definition, the one the module exports).\<close>

definition docsvault_get_user_groups_request ::
  "string \<Rightarrow> string \<Rightarrow> string \<Rightarrow> request" where
  "docsvault_get_user_groups_request token_id api_url user_id =
     (let action = ''UserDetails/GetUserGroup'';
          params = [(''TokenID'', token_id), (''UserID'', user_id)];
          full_api_url = rstrip api_url ''/'' @ ''/DocsvaultAPI/'' @ action
      in \<lparr>http_method = GET, url = full_api_url, params = params\<rparr>)"

definition docsvault_get_user_groups_success :: "pyval \<Rightarrow> error + pyval" where
  "docsvault_get_user_groups_success response_dict =
     ebind (getpath response_dict [''Docsvault'', ''Result'', ''Group'']) (\<lambda>group_details.
     let group_details = (if isinstance_dict group_details then PList [group_details] else group_details) in
     list_comp (\<lambda>group_detail. dict_literal
      [(''group_name'', getitem group_detail ''GroupName''),
       (''group_id'', getitem group_detail ''GroupID''),
       (''description'', getitem group_detail ''Description'')]) group_details)"

definition docsvault_get_user_groups_response :: "parser \<Rightarrow> response \<Rightarrow> error + pyval" where
  "docsvault_get_user_groups_response parse response =
     (if status_code response = 200 then
        ebind (parse (content response)) (\<lambda>response_dict.
        ebind (getpath response_dict [''Docsvault'', ''Response'', ''StatusCode'']) (\<lambda>status.
        if status = PStr ''0'' then
          docsvault_get_user_groups_success response_dict
        else
          ebind (getpath response_dict [''Docsvault'', ''Response'', ''Message'']) (\<lambda>error_message.
          ebind (str_add ''Could not get user groups. '' error_message) (\<lambda>msg. Inl (ValueError msg)))))
      else Inl (RequestException
             (''Could not get user groups. Status code: '' @ str_int (status_code response))))"

definition docsvault_get_user_groups ::
  "transport \<Rightarrow> parser \<Rightarrow> string \<Rightarrow> string \<Rightarrow> string \<Rightarrow> error + pyval" where
  "docsvault_get_user_groups http parse token_id api_url user_id =
     ebind (http (docsvault_get_user_groups_request token_id api_url user_id))
       (docsvault_get_user_groups_response parse)"

section \<open>File operations\<close>

text \<open>\<^verbatim>\<open>docsvault_get_file_details\<close>, lines 671-744.\<close>

definition docsvault_get_file_details_request ::
  "string \<Rightarrow> string \<Rightarrow> string \<Rightarrow> request" where
  "docsvault_get_file_details_request token_id api_url file_id =
     (let action = ''FileDetails/GetFileDetailsByID'';
          params = [(''TokenID'', token_id), (''FileID'', file_id)];
          full_api_url = rstrip api_url ''/'' @ ''/DocsvaultAPI/'' @ action
      in \<lparr>http_method = GET, url = full_api_url, params = params\<rparr>)"

definition docsvault_get_file_details_success :: "pyval \<Rightarrow> error + pyval" where
  "docsvault_get_file_details_success response_dict =
     ebind (getpath response_dict [''Docsvault'', ''Result'', ''FileDetail'']) (\<lambda>file_details.
     dict_literal
      [(''file_id'', getitem file_details ''FileID''),
       (''parent_id'', getitem file_details ''ParentID''),
       (''file_name'', getitem file_details ''FileName''),
       (''description'', getitem file_details ''Description''),
       (''flag_name'', getitem file_details ''FlagName''),
       (''file_size'', getitem file_details ''FileSize''),
       (''doc_type'', getitem file_details ''DocType''),
       (''pages'', getitem file_details ''Pages''),
       (''version'', getitem file_details ''Version''),
       (''version_note'', getitem file_details ''VersionNote''),
       (''version_owner'', getitem file_details ''VersionOwner''),
       (''version_owner_name'', getitem file_details ''VersionOwnerName''),
       (''modified_date'', getitem file_details ''ModifiedDate''),
       (''created_date'', getitem file_details ''CreatedDate''),
       (''accessed_date'', getitem file_details ''AccessedDate''),
       (''checked_out'', ebind (get file_details ''CheckedOut'') (\<lambda>v. Inr (PBool (v = PStr ''true'')))),
       (''checked_out_by'', get file_details ''CheckedOutBy''),
       (''checked_out_by_name'', get file_details ''CheckedOutByName''),
       (''owner_id'', getitem file_details ''OwnerID''),
       (''owner_name'', getitem file_details ''OwnerName''),
       (''location'', getitem file_details ''Location''),
       (''doc_notes'', getitem file_details ''DocNotes''),
       (''profile_id'', getitem file_details ''ProfileID''),
       (''profile_name'', getitem file_details ''ProfileName''),
       (''indexes'',
          ebind (getpath file_details [''ListOfIndexes'', ''Indexes'']) (\<lambda>indexes.
          list_comp (\<lambda>index. dict_literal
            [(''index'', getitem index ''Index''),
             (''index_value'', getitem index ''IndexValue'')]) indexes))])"

definition docsvault_get_file_details_response :: "parser \<Rightarrow> response \<Rightarrow> error + pyval" where
  "docsvault_get_file_details_response parse response =
     (if status_code response = 200 then
        ebind (parse (content response)) (\<lambda>response_dict.
        ebind (getpath response_dict [''Docsvault'', ''Response'', ''StatusCode'']) (\<lambda>status.
        if status = PStr ''0'' then
          docsvault_get_file_details_success response_dict
        else
          ebind (getpath response_dict [''Docsvault'', ''Response'', ''Message'']) (\<lambda>error_message.
          ebind (str_add ''Could not get file details. '' error_message) (\<lambda>msg. Inl (ValueError msg)))))
      else Inl (RequestException
             (''Could not get file details. Status code: '' @ str_int (status_code response))))"

definition docsvault_get_file_details ::
  "transport \<Rightarrow> parser \<Rightarrow> string \<Rightarrow> string \<Rightarrow> string \<Rightarrow> error + pyval" where
  "docsvault_get_file_details http parse token_id api_url file_id =
     ebind (http (docsvault_get_file_details_request token_id api_url file_id))
       (docsvault_get_file_details_response parse)"

text \<open>\<^verbatim>\<open>docsvault_get_file_details_by_location\<close>, lines 746-816.\<close>

definition docsvault_get_file_details_by_location_request ::
  "string \<Rightarrow> string \<Rightarrow> string \<Rightarrow> request" where
  "docsvault_get_file_details_by_location_request token_id api_url location =
     (let action = ''FileDetails/GetFileDetailsByLocation'';
          params = [(''TokenID'', token_id), (''Location'', location)];
          full_api_url = rstrip api_url ''/'' @ ''/DocsvaultAPI/'' @ action
      in \<lparr>http_method = GET, url = full_api_url, params = params\<rparr>)"

definition docsvault_get_file_details_by_location_success :: "pyval \<Rightarrow> error + pyval" where
  "docsvault_get_file_details_by_location_success response_dict =
     ebind (getpath response_dict [''Docsvault'', ''Result'', ''FileDetail'']) (\<lambda>file_detail.
     dict_literal
      [(''file_id'', getitem file_detail ''FileID''),
       (''parent_id'', getitem file_detail ''ParentID''),
       (''file_name'', getitem file_detail ''FileName''),
       (''description'', getitem file_detail ''Description''),
       (''flag_name'', getitem file_detail ''FlagName''),
       (''file_size'', getitem file_detail ''FileSize''),
       (''doc_type'', getitem file_detail ''DocType''),
       (''pages'', getitem file_detail ''Pages''),
       (''version'', getitem file_detail ''Version''),
       (''version_note'', getitem file_detail ''VersionNote''),
       (''version_owner'', getitem file_detail ''VersionOwner''),
       (''version_owner_name'', getitem file_detail ''VersionOwnerName''),
       (''modified_date'', getitem file_detail ''ModifiedDate''),
       (''created_date'', getitem file_detail ''CreatedDate''),
       (''accessed_date'', getitem file_detail ''AccessedDate''),
       (''checked_out'', getitem file_detail ''CheckedOut''),
       (''checked_out_by'', getitem file_detail ''CheckedOutBy''),
       (''checked_out_by_name'', getitem file_detail ''CheckedOutByName''),
       (''owner_id'', getitem file_detail ''OwnerID''),
       (''owner_name'', getitem file_detail ''OwnerName''),
       (''location'', getitem file_detail ''Location''),
       (''doc_notes'', getitem file_detail ''DocNotes''),
       (''profile_id'', getitem file_detail ''ProfileID''),
       (''profile_name'', getitem file_detail ''ProfileName''),
       (''list_of_indexes'',
          ebind (get_default file_detail ''ListOfIndexes'' (PDict [])) (\<lambda>list_of_indexes.
          get_default list_of_indexes ''Indexes'' (PList [])))])"

definition docsvault_get_file_details_by_location_response :: "parser \<Rightarrow> response \<Rightarrow> error + pyval" where
  "docsvault_get_file_details_by_location_response parse response =
     (if status_code response = 200 then
        ebind (parse (content response)) (\<lambda>response_dict.
        ebind (getpath response_dict [''Docsvault'', ''Response'', ''StatusCode'']) (\<lambda>status.
        if status = PStr ''0'' then
          docsvault_get_file_details_by_location_success response_dict
        else
          ebind (getpath response_dict [''Docsvault'', ''Response'', ''Message'']) (\<lambda>error_message.
          ebind (str_add ''Could not get file details. '' error_message) (\<lambda>msg. Inl (ValueError msg)))))
      else Inl (RequestException
             (''Could not get file details. Status code: '' @ str_int (status_code response))))"

definition docsvault_get_file_details_by_location ::
  "transport \<Rightarrow> parser \<Rightarrow> string \<Rightarrow> string \<Rightarrow> string \<Rightarrow> error + pyval" where
  "docsvault_get_file_details_by_location http parse token_id api_url location =
     ebind (http (docsvault_get_file_details_by_location_request token_id api_url location))
       (docsvault_get_file_details_by_location_response parse)"

text \<open>\<^verbatim>\<open>docsvault_get_file_profile\<close>, lines 818-869.\<close>

definition docsvault_get_file_profile_request ::
  "string \<Rightarrow> string \<Rightarrow> string \<Rightarrow> request" where
  "docsvault_get_file_profile_request token_id api_url file_id =
     (let action = ''FileDetails/GetFileProfile'';
          params = [(''TokenID'', token_id), (''FileID'', file_id)];
          full_api_url = rstrip api_url ''/'' @ ''/DocsvaultAPI/'' @ action
      in \<lparr>http_method = GET, url = full_api_url, params = params\<rparr>)"

definition docsvault_get_file_profile_success :: "pyval \<Rightarrow> error + pyval" where
  "docsvault_get_file_profile_success response_dict =
     ebind (getpath response_dict [''Docsvault'', ''Result'', ''FileDetail'']) (\<lambda>file_detail.
     ebind (get_default file_detail ''ListOfIndexes'' (PDict [])) (\<lambda>list_of_indexes.
     ebind (get_default list_of_indexes ''Indexes'' (PList [])) (\<lambda>indexes.
     ebind (dict_comp (\<lambda>index. getitem index ''Index'') (\<lambda>index. getitem index ''IndexValue'') indexes)
       (\<lambda>index_values.
     dict_literal
      [(''flag_name'', getitem file_detail ''FlagName''),
       (''doc_notes'', getitem file_detail ''DocNotes''),
       (''profile_name'', getitem file_detail ''ProfileName''),
       (''index_values'', Inr index_values)]))))"

definition docsvault_get_file_profile_response :: "parser \<Rightarrow> response \<Rightarrow> error + pyval" where
  "docsvault_get_file_profile_response parse response =
     (if status_code response = 200 then
        ebind (parse (content response)) (\<lambda>response_dict.
        ebind (getpath response_dict [''Docsvault'', ''Response'', ''StatusCode'']) (\<lambda>status.
        if status = PStr ''0'' then
          docsvault_get_file_profile_success response_dict
        else
          ebind (getpath response_dict [''Docsvault'', ''Response'', ''Message'']) (\<lambda>error_message.
          ebind (str_add ''Could not get file profile. '' error_message) (\<lambda>msg. Inl (ValueError msg)))))
      else Inl (RequestException
             (''Could not get file profile. Status code: '' @ str_int (status_code response))))"

definition docsvault_get_file_profile ::
  "transport \<Rightarrow> parser \<Rightarrow> string \<Rightarrow> string \<Rightarrow> string \<Rightarrow> error + pyval" where
  "docsvault_get_file_profile http parse token_id api_url file_id =
     ebind (http (docsvault_get_file_profile_request token_id api_url file_id))
       (docsvault_get_file_profile_response parse)"

text \<open>\<^verbatim>\<open>docsvault_get_checked_out_files_by_user\<close>, lines 871-946.\<close>

definition docsvault_get_checked_out_files_by_user_request ::
  "string \<Rightarrow> string \<Rightarrow> string \<Rightarrow> request" where
  "docsvault_get_checked_out_files_by_user_request token_id api_url user_id =
     (let action = ''FileDetails/GetCheckedoutFilesByUser'';
          params = [(''TokenID'', token_id), (''UserID'', user_id)];
          full_api_url = rstrip api_url ''/'' @ ''/DocsvaultAPI/'' @ action
      in \<lparr>http_method = GET, url = full_api_url, params = params\<rparr>)"

definition docsvault_get_checked_out_files_by_user_success :: "pyval \<Rightarrow> error + pyval" where
  "docsvault_get_checked_out_files_by_user_success response_dict =
     ebind (getpath response_dict [''Docsvault'', ''Result'']) (\<lambda>result.
     ebind (get_default result ''FileDetail'' (PList [])) (\<lambda>file_details.
     let file_details = (if isinstance_dict file_details then PList [file_details] else file_details) in
     dict_literal
      [(''checked_out_files'', list_comp (\<lambda>file_detail. dict_literal
         [(''file_id'', getitem file_detail ''FileID''),
          (''parent_id'', getitem file_detail ''ParentID''),
          (''file_name'', getitem file_detail ''FileName''),
          (''description'', getitem file_detail ''Description''),
          (''flag_name'', getitem file_detail ''FlagName''),
          (''file_size'', getitem file_detail ''FileSize''),
          (''doc_type'', getitem file_detail ''DocType''),
          (''pages'', getitem file_detail ''Pages''),
          (''version'', getitem file_detail ''Version''),
          (''version_note'', getitem file_detail ''VersionNote''),
          (''version_owner'', getitem file_detail ''VersionOwner''),
          (''version_owner_name'', getitem file_detail ''VersionOwnerName''),
          (''modified_date'', getitem file_detail ''ModifiedDate''),
          (''created_date'', getitem file_detail ''CreatedDate''),
          (''accessed_date'', getitem file_detail ''AccessedDate''),
          (''checked_out'', ebind (get file_detail ''CheckedOut'') (\<lambda>v. Inr (PBool (v = PStr ''true'')))),
          (''checked_out_by'', get_default file_detail ''CheckedOutBy'' (PStr '''')),
          (''checked_out_by_name'', get_default file_detail ''CheckedOutByName'' (PStr '''')),
          (''owner_id'', getitem file_detail ''OwnerID''),
          (''owner_name'', getitem file_detail ''OwnerName''),
          (''location'', getitem file_detail ''Location'')]) file_details)]))"

definition docsvault_get_checked_out_files_by_user_response :: "parser \<Rightarrow> response \<Rightarrow> error + pyval" where
  "docsvault_get_checked_out_files_by_user_response parse response =
     (if status_code response = 200 then
        ebind (parse (content response)) (\<lambda>response_dict.
        ebind (getpath response_dict [''Docsvault'', ''Response'', ''StatusCode'']) (\<lambda>status.
        if status = PStr ''0'' then
          docsvault_get_checked_out_files_by_user_success response_dict
        else
          ebind (getpath response_dict [''Docsvault'', ''Response'', ''Message'']) (\<lambda>error_message.
          ebind (str_add ''Could not get checked out files. '' error_message) (\<lambda>msg. Inl (ValueError msg)))))
      else Inl (RequestException
             (''Could not get checked out files. Status code: '' @ str_int (status_code response))))"

definition docsvault_get_checked_out_files_by_user ::
  "transport \<Rightarrow> parser \<Rightarrow> string \<Rightarrow> string \<Rightarrow> string \<Rightarrow> error + pyval" where
  "docsvault_get_checked_out_files_by_user http parse token_id api_url user_id =
     ebind (http (docsvault_get_checked_out_files_by_user_request token_id api_url user_id))
       (docsvault_get_checked_out_files_by_user_response parse)"

text \<open>\<^verbatim>\<open>docsvault_get_file_versions\<close>, lines 948-1009.\<close>

definition docsvault_get_file_versions_request ::
  "string \<Rightarrow> string \<Rightarrow> string \<Rightarrow> request" where
  "docsvault_get_file_versions_request token_id api_url file_id =
     (let action = ''FileDetails/GetFileVersion'';
          params = [(''TokenID'', token_id), (''FileID'', file_id)];
          full_api_url = rstrip api_url ''/'' @ ''/DocsvaultAPI/'' @ action
      in \<lparr>http_method = GET, url = full_api_url, params = params\<rparr>)"

definition docsvault_get_file_versions_success :: "pyval \<Rightarrow> error + pyval" where
  "docsvault_get_file_versions_success response_dict =
     ebind (getpath response_dict [''Docsvault'', ''Result'']) (\<lambda>result.
     ebind (get_default result ''FileDetail'' (PList [])) (\<lambda>file_details.
     let file_details = (if isinstance_dict file_details then PList [file_details] else file_details) in
     dict_literal
      [(''file_versions'', list_comp (\<lambda>file_detail. dict_literal
         [(''file_size'', getitem file_detail ''FileSize''),
          (''version'', getitem file_detail ''Version''),
          (''version_note'', getitem file_detail ''VersionNote''),
          (''version_owner'', getitem file_detail ''VersionOwner''),
          (''version_owner_name'', getitem file_detail ''VersionOwnerName''),
          (''created_date'', getitem file_detail ''CreatedDate''),
          (''version_notes'', getitem file_detail ''VersionNotes'')]) file_details)]))"

definition docsvault_get_file_versions_response :: "parser \<Rightarrow> response \<Rightarrow> error + pyval" where
  "docsvault_get_file_versions_response parse response =
     (if status_code response = 200 then
        ebind (parse (content response)) (\<lambda>response_dict.
        ebind (getpath response_dict [''Docsvault'', ''Response'', ''StatusCode'']) (\<lambda>status.
        if status = PStr ''0'' then
          docsvault_get_file_versions_success response_dict
        else
          ebind (getpath response_dict [''Docsvault'', ''Response'', ''Message'']) (\<lambda>error_message.
          ebind (str_add ''Could not get file versions. '' error_message) (\<lambda>msg. Inl (ValueError msg)))))
      else Inl (RequestException
             (''Could not get file versions. Status code: '' @ str_int (status_code response))))"

definition docsvault_get_file_versions ::
  "transport \<Rightarrow> parser \<Rightarrow> string \<Rightarrow> string \<Rightarrow> string \<Rightarrow> error + pyval" where
  "docsvault_get_file_versions http parse token_id api_url file_id =
     ebind (http (docsvault_get_file_versions_request token_id api_url file_id))
       (docsvault_get_file_versions_response parse)"

text \<open>\<^verbatim>\<open>docsvault_get_file_relations\<close>, lines 1011-1068.\<close>

definition docsvault_get_file_relations_request ::
  "string \<Rightarrow> string \<Rightarrow> string \<Rightarrow> request" where
  "docsvault_get_file_relations_request token_id api_url file_id =
     (let action = ''FileDetails/GetFileRelations'';
          params = [(''TokenID'', token_id), (''FileID'', file_id)];
          full_api_url = rstrip api_url ''/'' @ ''/DocsvaultAPI/'' @ action
      in \<lparr>http_method = GET, url = full_api_url, params = params\<rparr>)"

definition docsvault_get_file_relations_success :: "pyval \<Rightarrow> error + pyval" where
  "docsvault_get_file_relations_success response_dict =
     ebind (getpath response_dict [''Docsvault'', ''Result'']) (\<lambda>result.
     ebind (get_default result ''FileDetail'' (PList [])) (\<lambda>file_details.
     let file_details = (if isinstance_dict file_details then PList [file_details] else file_details) in
     dict_literal
      [(''related_documents'', list_comp (\<lambda>file_detail. dict_literal
         [(''file_id'', getitem file_detail ''FileID''),
          (''description'', getitem file_detail ''Description''),
          (''location'', getitem file_detail ''Location'')]) file_details)]))"

definition docsvault_get_file_relations_response :: "parser \<Rightarrow> response \<Rightarrow> error + pyval" where
  "docsvault_get_file_relations_response parse response =
     (if status_code response = 200 then
        ebind (parse (content response)) (\<lambda>response_dict.
        ebind (getpath response_dict [''Docsvault'', ''Response'', ''StatusCode'']) (\<lambda>status.
        if status = PStr ''0'' then
          docsvault_get_file_relations_success response_dict
        else
          ebind (getpath response_dict [''Docsvault'', ''Response'', ''Message'']) (\<lambda>error_message.
          ebind (str_add ''Could not get related documents. '' error_message) (\<lambda>msg. Inl (ValueError msg)))))
      else Inl (RequestException
             (''Could not get related documents. Status code: '' @ str_int (status_code response))))"

definition docsvault_get_file_relations ::
  "transport \<Rightarrow> parser \<Rightarrow> string \<Rightarrow> string \<Rightarrow> string \<Rightarrow> error + pyval" where
  "docsvault_get_file_relations http parse token_id api_url file_id =
     ebind (http (docsvault_get_file_relations_request token_id api_url file_id))
       (docsvault_get_file_relations_response parse)"

section \<open>Folder operations\<close>

text \<open>\<^verbatim>\<open>docsvault_get_folder_details_by_id\<close>, lines 1070-1140.\<close>

definition docsvault_get_folder_details_by_id_request ::
  "string \<Rightarrow> string \<Rightarrow> string \<Rightarrow> request" where
  "docsvault_get_folder_details_by_id_request token_id api_url folder_id =
     (let action = ''FolderDetails/GetFolderDetailsByID'';
          params = [(''TokenID'', token_id), (''FolderID'', folder_id)];
          full_api_url = rstrip api_url ''/'' @ ''/DocsvaultAPI/'' @ action
      in \<lparr>http_method = GET, url = full_api_url, params = params\<rparr>)"

definition docsvault_get_folder_details_by_id_success :: "pyval \<Rightarrow> error + pyval" where
  "docsvault_get_folder_details_by_id_success response_dict =
     ebind (getpath response_dict [''Docsvault'', ''Result'']) (\<lambda>result.
     ebind (get_default result ''FolderDetail'' (PDict [])) (\<lambda>folder_detail.
     dict_literal
      [(''folder_id'', get folder_detail ''FolderID''),
       (''parent_id'', get folder_detail ''ParentID''),
       (''folder_name'', get folder_detail ''FolderName''),
       (''description'', get folder_detail ''Description''),
       (''flag_name'', get folder_detail ''FlagName''),
       (''has_child'', get folder_detail ''HasChild''),
       (''modified_date'', get folder_detail ''ModifiedDate''),
       (''created_date'', get folder_detail ''CreatedDate''),
       (''accessed_date'', get folder_detail ''AccessedDate''),
       (''checked_out'', get folder_detail ''CheckedOut''),
       (''checked_out_by'', get folder_detail ''CheckedOutBy''),
       (''checked_out_by_name'', get folder_detail ''CheckedOutByName''),
       (''owner_id'', get folder_detail ''OwnerID''),
       (''owner_name'', get folder_detail ''OwnerName''),
       (''location'', get folder_detail ''Location''),
       (''doc_notes'', get folder_detail ''DocNotes''),
       (''profile_id'', get folder_detail ''ProfileID''),
       (''profile_name'', get folder_detail ''ProfileName''),
       (''list_of_indexes'',
          ebind (get_default folder_detail ''ListOfIndexes'' (PDict [])) (\<lambda>list_of_indexes.
          ebind (get_default list_of_indexes ''Indexes'' (PList [])) (\<lambda>indexes.
          list_comp (\<lambda>index. dict_literal
            [(''index'', get index ''Index''),
             (''index_value'', get index ''IndexValue'')]) indexes)))]))"

definition docsvault_get_folder_details_by_id_response :: "parser \<Rightarrow> response \<Rightarrow> error + pyval" where
  "docsvault_get_folder_details_by_id_response parse response =
     (if status_code response = 200 then
        ebind (parse (content response)) (\<lambda>response_dict.
        ebind (getpath response_dict [''Docsvault'', ''Response'', ''StatusCode'']) (\<lambda>status.
        if status = PStr ''0'' then
          docsvault_get_folder_details_by_id_success response_dict
        else
          ebind (getpath response_dict [''Docsvault'', ''Response'', ''Message'']) (\<lambda>error_message.
          ebind (str_add ''Could not get folder details. '' error_message) (\<lambda>msg. Inl (ValueError msg)))))
      else Inl (RequestException
             (''Could not get folder details. Status code: '' @ str_int (status_code response))))"

definition docsvault_get_folder_details_by_id ::
  "transport \<Rightarrow> parser \<Rightarrow> string \<Rightarrow> string \<Rightarrow> string \<Rightarrow> error + pyval" where
  "docsvault_get_folder_details_by_id http parse token_id api_url folder_id =
     ebind (http (docsvault_get_folder_details_by_id_request token_id api_url folder_id))
       (docsvault_get_folder_details_by_id_response parse)"

text \<open>\<^verbatim>\<open>docsvault_get_folder_details_by_location\<close>, lines 1142-1212.\<close>

definition docsvault_get_folder_details_by_location_request ::
  "string \<Rightarrow> string \<Rightarrow> string \<Rightarrow> request" where
  "docsvault_get_folder_details_by_location_request token_id api_url location =
     (let action = ''FolderDetails/GetFolderDetailsByLocation'';
          params = [(''TokenID'', token_id), (''Location'', location)];
          full_api_url = rstrip api_url ''/'' @ ''/DocsvaultAPI/'' @ action
      in \<lparr>http_method = GET, url = full_api_url, params = params\<rparr>)"

definition docsvault_get_folder_details_by_location_success :: "pyval \<Rightarrow> error + pyval" where
  "docsvault_get_folder_details_by_location_success response_dict =
     ebind (getpath response_dict [''Docsvault'', ''Result'']) (\<lambda>result.
     ebind (get_default result ''FolderDetail'' (PDict [])) (\<lambda>folder_detail.
     dict_literal
      [(''folder_id'', get folder_detail ''FolderID''),
       (''parent_id'', get folder_detail ''ParentID''),
       (''folder_name'', get folder_detail ''FolderName''),
       (''description'', get folder_detail ''Description''),
       (''flag_name'', get folder_detail ''FlagName''),
       (''has_child'', get folder_detail ''HasChild''),
       (''modified_date'', get folder_detail ''ModifiedDate''),
       (''created_date'', get folder_detail ''CreatedDate''),
       (''accessed_date'', get folder_detail ''AccessedDate''),
       (''checked_out'', get folder_detail ''CheckedOut''),
       (''checked_out_by'', get folder_detail ''CheckedOutBy''),
       (''checked_out_by_name'', get folder_detail ''CheckedOutByName''),
       (''owner_id'', get folder_detail ''OwnerID''),
       (''owner_name'', get folder_detail ''OwnerName''),
       (''location'', get folder_detail ''Location''),
       (''doc_notes'', get folder_detail ''DocNotes''),
       (''profile_id'', get folder_detail ''ProfileID''),
       (''profile_name'', get folder_detail ''ProfileName''),
       (''list_of_indexes'',
          ebind (get_default folder_detail ''ListOfIndexes'' (PDict [])) (\<lambda>list_of_indexes.
          ebind (get_default list_of_indexes ''Indexes'' (PList [])) (\<lambda>indexes.
          list_comp (\<lambda>index. dict_literal
            [(''index'', get index ''Index''),
             (''index_value'', get index ''IndexValue'')]) indexes)))]))"

definition docsvault_get_folder_details_by_location_response :: "parser \<Rightarrow> response \<Rightarrow> error + pyval" where
  "docsvault_get_folder_details_by_location_response parse response =
     (if status_code response = 200 then
        ebind (parse (content response)) (\<lambda>response_dict.
        ebind (getpath response_dict [''Docsvault'', ''Response'', ''StatusCode'']) (\<lambda>status.
        if status = PStr ''0'' then
          docsvault_get_folder_details_by_location_success response_dict
        else
          ebind (getpath response_dict [''Docsvault'', ''Response'', ''Message'']) (\<lambda>error_message.
          ebind (str_add ''Could not get folder details. '' error_message) (\<lambda>msg. Inl (ValueError msg)))))
      else Inl (RequestException
             (''Could not get folder details. Status code: '' @ str_int (status_code response))))"

definition docsvault_get_folder_details_by_location ::
  "transport \<Rightarrow> parser \<Rightarrow> string \<Rightarrow> string \<Rightarrow> string \<Rightarrow> error + pyval" where
  "docsvault_get_folder_details_by_location http parse token_id api_url location =
     ebind (http (docsvault_get_folder_details_by_location_request token_id api_url location))
       (docsvault_get_folder_details_by_location_response parse)"

text \<open>\<^verbatim>\<open>docsvault_get_folder_profile\<close>, lines 1214-1269.\<close>

definition docsvault_get_folder_profile_request ::
  "string \<Rightarrow> string \<Rightarrow> string \<Rightarrow> request" where
  "docsvault_get_folder_profile_request token_id api_url folder_id =
     (let action = ''FolderDetails/GetFolderProfile'';
          params = [(''TokenID'', token_id), (''FolderID'', folder_id)];
          full_api_url = rstrip api_url ''/'' @ ''/DocsvaultAPI/'' @ action
      in \<lparr>http_method = GET, url = full_api_url, params = params\<rparr>)"

definition docsvault_get_folder_profile_success :: "pyval \<Rightarrow> error + pyval" where
  "docsvault_get_folder_profile_success response_dict =
     ebind (getpath response_dict [''Docsvault'', ''Result'']) (\<lambda>result.
     ebind (get_default result ''FolderDetail'' (PDict [])) (\<lambda>folder_detail.
     dict_literal
      [(''flag_name'', get folder_detail ''FlagName''),
       (''doc_notes'', get folder_detail ''DocNotes''),
       (''profile_name'', get folder_detail ''ProfileName''),
       (''list_of_indexes'',
          ebind (get_default folder_detail ''ListOfIndexes'' (PDict [])) (\<lambda>list_of_indexes.
          ebind (get_default list_of_indexes ''Indexes'' (PList [])) (\<lambda>indexes.
          list_comp (\<lambda>index. dict_literal
            [(''index'', get index ''Index''),
             (''index_value'', get index ''IndexValue'')]) indexes)))]))"

definition docsvault_get_folder_profile_response :: "parser \<Rightarrow> response \<Rightarrow> error + pyval" where
  "docsvault_get_folder_profile_response parse response =
     (if status_code response = 200 then
        ebind (parse (content response)) (\<lambda>response_dict.
        ebind (getpath response_dict [''Docsvault'', ''Response'', ''StatusCode'']) (\<lambda>status.
        if status = PStr ''0'' then
          docsvault_get_folder_profile_success response_dict
        else
          ebind (getpath response_dict [''Docsvault'', ''Response'', ''Message'']) (\<lambda>error_message.
          ebind (str_add ''Could not get folder profile. '' error_message) (\<lambda>msg. Inl (ValueError msg)))))
      else Inl (RequestException
             (''Could not get folder profile. Status code: '' @ str_int (status_code response))))"

definition docsvault_get_folder_profile ::
  "transport \<Rightarrow> parser \<Rightarrow> string \<Rightarrow> string \<Rightarrow> string \<Rightarrow> error + pyval" where
  "docsvault_get_folder_profile http parse token_id api_url folder_id =
     ebind (http (docsvault_get_folder_profile_request token_id api_url folder_id))
       (docsvault_get_folder_profile_response parse)"

text \<open>\<^verbatim>\<open>docsvault_get_folder_relations\<close>, lines 1271-1347.\<close>

definition docsvault_get_folder_relations_request ::
  "string \<Rightarrow> string \<Rightarrow> string \<Rightarrow> request" where
  "docsvault_get_folder_relations_request token_id api_url folder_id =
     (let action = ''FolderDetails/GetFolderRelations'';
          params = [(''TokenID'', token_id), (''FolderID'', folder_id)];
          full_api_url = rstrip api_url ''/'' @ ''/DocsvaultAPI/'' @ action
      in \<lparr>http_method = GET, url = full_api_url, params = params\<rparr>)"

definition docsvault_get_folder_relations_success :: "pyval \<Rightarrow> error + pyval" where
  "docsvault_get_folder_relations_success response_dict =
     ebind (getpath response_dict [''Docsvault'', ''Result'']) (\<lambda>result.
     ebind (get_default result ''RelatedDocs'' (PDict [])) (\<lambda>related.
     ebind (get_default related ''Doc'' (PList [])) (\<lambda>related_docs.
     list_comp (\<lambda>doc. dict_literal
      [(''doc_id'', get doc ''DocID''),
       (''doc_name'', get doc ''DocName''),
       (''doc_type'', get doc ''DocType''),
       (''version'', get doc ''Version''),
       (''folder_id'', get doc ''FolderID''),
       (''folder_name'', get doc ''FolderName''),
       (''location'', get doc ''Location''),
       (''modified_date'', get doc ''ModifiedDate''),
       (''created_date'', get doc ''CreatedDate''),
       (''accessed_date'', get doc ''AccessedDate''),
       (''size'', get doc ''Size''),
       (''extension'', get doc ''Extension''),
       (''checksum'', get doc ''Checksum''),
       (''pages'', get doc ''Pages''),
       (''author'', get doc ''Author''),
       (''title'', get doc ''Title''),
       (''subject'', get doc ''Subject''),
       (''keywords'', get doc ''Keywords''),
       (''category'', get doc ''Category''),
       (''status'', get doc ''Status''),
       (''comment'', get doc ''Comment''),
       (''owner_id'', get doc ''OwnerID''),
       (''owner_name'', get doc ''OwnerName''),
       (''file_path'', get doc ''FilePath''),
       (''doc_notes'', get doc ''DocNotes''),
       (''workflow_status'', get doc ''WorkflowStatus''),
       (''web_access'', get doc ''WebAccess''),
       (''task_id'', get doc ''TaskID'')]) related_docs)))"

definition docsvault_get_folder_relations_response :: "parser \<Rightarrow> response \<Rightarrow> error + pyval" where
  "docsvault_get_folder_relations_response parse response =
     (if status_code response = 200 then
        ebind (parse (content response)) (\<lambda>response_dict.
        ebind (getpath response_dict [''Docsvault'', ''Response'', ''StatusCode'']) (\<lambda>status.
        if status = PStr ''0'' then
          docsvault_get_folder_relations_success response_dict
        else
          ebind (getpath response_dict [''Docsvault'', ''Response'', ''Message'']) (\<lambda>error_message.
          ebind (str_add ''Could not get related documents. '' error_message) (\<lambda>msg. Inl (ValueError msg)))))
      else Inl (RequestException
             (''Could not get related documents. Status code: '' @ str_int (status_code response))))"

definition docsvault_get_folder_relations ::
  "transport \<Rightarrow> parser \<Rightarrow> string \<Rightarrow> string \<Rightarrow> string \<Rightarrow> error + pyval" where
  "docsvault_get_folder_relations http parse token_id api_url folder_id =
     ebind (http (docsvault_get_folder_relations_request token_id api_url folder_id))
       (docsvault_get_folder_relations_response parse)"

section \<open>The module's operations as one type\<close>

text \<open>
  A call of one of the module's functions with its arguments, in the order of the source.
  \<^verbatim>\<open>GetUserGroups1\<close> is the first definition of \<^verbatim>\<open>docsvault_get_user_groups\<close>, which the
  second one (\<^verbatim>\<open>GetUserGroups\<close>) replaces when the module is loaded.
\<close>

datatype call =
    Login string string string
  | LoginPost string string string
  | Logout string string string
  | GetLoginUserId string string
  | GetUserDetailsByName string string string
  | GetUserDetailsById string string string
  | GetUserDetailsByEmail string string string
  | GetReadonlyUsers string string
  | GetWebaccessUsers string string
  | GetUserGroups1 string string string
  | GetConnectedUsers string string
  | GetUserGroups string string string
  | GetFileDetails string string string
  | GetFileDetailsByLocation string string string
  | GetFileProfile string string string
  | GetCheckedOutFilesByUser string string string
  | GetFileVersions string string string
  | GetFileRelations string string string
  | GetFolderDetailsById string string string
  | GetFolderDetailsByLocation string string string
  | GetFolderProfile string string string
  | GetFolderRelations string string string

text \<open>The request a call sends.\<close>

fun request_of :: "call \<Rightarrow> request" where
  "request_of (Login username password api_url) = docsvault_login_request username password api_url"
| "request_of (LoginPost username password api_url) = docsvault_login_post_request username password api_url"
| "request_of (Logout token_id username api_url) = docsvault_logout_request token_id username api_url"
| "request_of (GetLoginUserId token_id api_url) = docsvault_get_login_user_id_request token_id api_url"
| "request_of (GetUserDetailsByName token_id user_name api_url) = docsvault_get_user_details_by_name_request token_id user_name api_url"
| "request_of (GetUserDetailsById token_id user_id api_url) = docsvault_get_user_details_by_id_request token_id user_id api_url"
| "request_of (GetUserDetailsByEmail token_id email api_url) = docsvault_get_user_details_by_email_request token_id email api_url"
| "request_of (GetReadonlyUsers token_id api_url) = docsvault_get_readonly_users_request token_id api_url"
| "request_of (GetWebaccessUsers token_id api_url) = docsvault_get_webaccess_users_request token_id api_url"
| "request_of (GetUserGroups1 token_id user_id api_url) = docsvault_get_user_groups_1_request token_id user_id api_url"
| "request_of (GetConnectedUsers token_id api_url) = docsvault_get_connected_users_request token_id api_url"
| "request_of (GetUserGroups token_id api_url user_id) = docsvault_get_user_groups_request token_id api_url user_id"
| "request_of (GetFileDetails token_id api_url file_id) = docsvault_get_file_details_request token_id api_url file_id"
| "request_of (GetFileDetailsByLocation token_id api_url location) = docsvault_get_file_details_by_location_request token_id api_url location"
| "request_of (GetFileProfile token_id api_url file_id) = docsvault_get_file_profile_request token_id api_url file_id"
| "request_of (GetCheckedOutFilesByUser token_id api_url user_id) = docsvault_get_checked_out_files_by_user_request token_id api_url user_id"
| "request_of (GetFileVersions token_id api_url file_id) = docsvault_get_file_versions_request token_id api_url file_id"
| "request_of (GetFileRelations token_id api_url file_id) = docsvault_get_file_relations_request token_id api_url file_id"
| "request_of (GetFolderDetailsById token_id api_url folder_id) = docsvault_get_folder_details_by_id_request token_id api_url folder_id"
| "request_of (GetFolderDetailsByLocation token_id api_url location) = docsvault_get_folder_details_by_location_request token_id api_url location"
| "request_of (GetFolderProfile token_id api_url folder_id) = docsvault_get_folder_profile_request token_id api_url folder_id"
| "request_of (GetFolderRelations token_id api_url folder_id) = docsvault_get_folder_relations_request token_id api_url folder_id"

text \<open>The branch a call takes when its status check passes.\<close>

fun on_success :: "call \<Rightarrow> pyval \<Rightarrow> error + pyval" where
  "on_success (Login username password api_url) = docsvault_login_success"
| "on_success (LoginPost username password api_url) = docsvault_login_post_success"
| "on_success (Logout token_id username api_url) = docsvault_logout_success"
| "on_success (GetLoginUserId token_id api_url) = docsvault_get_login_user_id_success"
| "on_success (GetUserDetailsByName token_id user_name api_url) = docsvault_get_user_details_by_name_success"
| "on_success (GetUserDetailsById token_id user_id api_url) = docsvault_get_user_details_by_id_success"
| "on_success (GetUserDetailsByEmail token_id email api_url) = docsvault_get_user_details_by_email_success"
| "on_success (GetReadonlyUsers token_id api_url) = docsvault_get_readonly_users_success"
| "on_success (GetWebaccessUsers token_id api_url) = docsvault_get_webaccess_users_success"
| "on_success (GetUserGroups1 token_id user_id api_url) = docsvault_get_user_groups_1_success"
| "on_success (GetConnectedUsers token_id api_url) = docsvault_get_connected_users_success"
| "on_success (GetUserGroups token_id api_url user_id) = docsvault_get_user_groups_success"
| "on_success (GetFileDetails token_id api_url file_id) = docsvault_get_file_details_success"
| "on_success (GetFileDetailsByLocation token_id api_url location) = docsvault_get_file_details_by_location_success"
| "on_success (GetFileProfile token_id api_url file_id) = docsvault_get_file_profile_success"
| "on_success (GetCheckedOutFilesByUser token_id api_url user_id) = docsvault_get_checked_out_files_by_user_success"
| "on_success (GetFileVersions token_id api_url file_id) = docsvault_get_file_versions_success"
| "on_success (GetFileRelations token_id api_url file_id) = docsvault_get_file_relations_success"
| "on_success (GetFolderDetailsById token_id api_url folder_id) = docsvault_get_folder_details_by_id_success"
| "on_success (GetFolderDetailsByLocation token_id api_url location) = docsvault_get_folder_details_by_location_success"
| "on_success (GetFolderProfile token_id api_url folder_id) = docsvault_get_folder_profile_success"
| "on_success (GetFolderRelations token_id api_url folder_id) = docsvault_get_folder_relations_success"

text \<open>What a call does with the response.\<close>

fun respond :: "call \<Rightarrow> parser \<Rightarrow> response \<Rightarrow> error + pyval" where
  "respond (Login username password api_url) = docsvault_login_response"
| "respond (LoginPost username password api_url) = docsvault_login_post_response"
| "respond (Logout token_id username api_url) = docsvault_logout_response"
| "respond (GetLoginUserId token_id api_url) = docsvault_get_login_user_id_response"
| "respond (GetUserDetailsByName token_id user_name api_url) = docsvault_get_user_details_by_name_response"
| "respond (GetUserDetailsById token_id user_id api_url) = docsvault_get_user_details_by_id_response"
| "respond (GetUserDetailsByEmail token_id email api_url) = docsvault_get_user_details_by_email_response"
| "respond (GetReadonlyUsers token_id api_url) = docsvault_get_readonly_users_response"
| "respond (GetWebaccessUsers token_id api_url) = docsvault_get_webaccess_users_response"
| "respond (GetUserGroups1 token_id user_id api_url) = docsvault_get_user_groups_1_response"
| "respond (GetConnectedUsers token_id api_url) = docsvault_get_connected_users_response"
| "respond (GetUserGroups token_id api_url user_id) = docsvault_get_user_groups_response"
| "respond (GetFileDetails token_id api_url file_id) = docsvault_get_file_details_response"
| "respond (GetFileDetailsByLocation token_id api_url location) = docsvault_get_file_details_by_location_response"
| "respond (GetFileProfile token_id api_url file_id) = docsvault_get_file_profile_response"
| "respond (GetCheckedOutFilesByUser token_id api_url user_id) = docsvault_get_checked_out_files_by_user_response"
| "respond (GetFileVersions token_id api_url file_id) = docsvault_get_file_versions_response"
| "respond (GetFileRelations token_id api_url file_id) = docsvault_get_file_relations_response"
| "respond (GetFolderDetailsById token_id api_url folder_id) = docsvault_get_folder_details_by_id_response"
| "respond (GetFolderDetailsByLocation token_id api_url location) = docsvault_get_folder_details_by_location_response"
| "respond (GetFolderProfile token_id api_url folder_id) = docsvault_get_folder_profile_response"
| "respond (GetFolderRelations token_id api_url folder_id) = docsvault_get_folder_relations_response"

text \<open>The call itself.\<close>

fun run :: "transport \<Rightarrow> parser \<Rightarrow> call \<Rightarrow> error + pyval" where
  "run http parse (Login username password api_url) = docsvault_login http parse username password api_url"
| "run http parse (LoginPost username password api_url) = docsvault_login_post http parse username password api_url"
| "run http parse (Logout token_id username api_url) = docsvault_logout http parse token_id username api_url"
| "run http parse (GetLoginUserId token_id api_url) = docsvault_get_login_user_id http parse token_id api_url"
| "run http parse (GetUserDetailsByName token_id user_name api_url) = docsvault_get_user_details_by_name http parse token_id user_name api_url"
| "run http parse (GetUserDetailsById token_id user_id api_url) = docsvault_get_user_details_by_id http parse token_id user_id api_url"
| "run http parse (GetUserDetailsByEmail token_id email api_url) = docsvault_get_user_details_by_email http parse token_id email api_url"
| "run http parse (GetReadonlyUsers token_id api_url) = docsvault_get_readonly_users http parse token_id api_url"
| "run http parse (GetWebaccessUsers token_id api_url) = docsvault_get_webaccess_users http parse token_id api_url"
| "run http parse (GetUserGroups1 token_id user_id api_url) = docsvault_get_user_groups_1 http parse token_id user_id api_url"
| "run http parse (GetConnectedUsers token_id api_url) = docsvault_get_connected_users http parse token_id api_url"
| "run http parse (GetUserGroups token_id api_url user_id) = docsvault_get_user_groups http parse token_id api_url user_id"
| "run http parse (GetFileDetails token_id api_url file_id) = docsvault_get_file_details http parse token_id api_url file_id"
| "run http parse (GetFileDetailsByLocation token_id api_url location) = docsvault_get_file_details_by_location http parse token_id api_url location"
| "run http parse (GetFileProfile token_id api_url file_id) = docsvault_get_file_profile http parse token_id api_url file_id"
| "run http parse (GetCheckedOutFilesByUser token_id api_url user_id) = docsvault_get_checked_out_files_by_user http parse token_id api_url user_id"
| "run http parse (GetFileVersions token_id api_url file_id) = docsvault_get_file_versions http parse token_id api_url file_id"
| "run http parse (GetFileRelations token_id api_url file_id) = docsvault_get_file_relations http parse token_id api_url file_id"
| "run http parse (GetFolderDetailsById token_id api_url folder_id) = docsvault_get_folder_details_by_id http parse token_id api_url folder_id"
| "run http parse (GetFolderDetailsByLocation token_id api_url location) = docsvault_get_folder_details_by_location http parse token_id api_url location"
| "run http parse (GetFolderProfile token_id api_url folder_id) = docsvault_get_folder_profile http parse token_id api_url folder_id"
| "run http parse (GetFolderRelations token_id api_url folder_id) = docsvault_get_folder_relations http parse token_id api_url folder_id"

text \<open>The \<^verbatim>\<open>api_url\<close> argument of a call.\<close>

fun api_url_of :: "call \<Rightarrow> string" where
  "api_url_of (Login username password api_url) = api_url"
| "api_url_of (LoginPost username password api_url) = api_url"
| "api_url_of (Logout token_id username api_url) = api_url"
| "api_url_of (GetLoginUserId token_id api_url) = api_url"
| "api_url_of (GetUserDetailsByName token_id user_name api_url) = api_url"
| "api_url_of (GetUserDetailsById token_id user_id api_url) = api_url"
| "api_url_of (GetUserDetailsByEmail token_id email api_url) = api_url"
| "api_url_of (GetReadonlyUsers token_id api_url) = api_url"
| "api_url_of (GetWebaccessUsers token_id api_url) = api_url"
| "api_url_of (GetUserGroups1 token_id user_id api_url) = api_url"
| "api_url_of (GetConnectedUsers token_id api_url) = api_url"
| "api_url_of (GetUserGroups token_id api_url user_id) = api_url"
| "api_url_of (GetFileDetails token_id api_url file_id) = api_url"
| "api_url_of (GetFileDetailsByLocation token_id api_url location) = api_url"
| "api_url_of (GetFileProfile token_id api_url file_id) = api_url"
| "api_url_of (GetCheckedOutFilesByUser token_id api_url user_id) = api_url"
| "api_url_of (GetFileVersions token_id api_url file_id) = api_url"
| "api_url_of (GetFileRelations token_id api_url file_id) = api_url"
| "api_url_of (GetFolderDetailsById token_id api_url folder_id) = api_url"
| "api_url_of (GetFolderDetailsByLocation token_id api_url location) = api_url"
| "api_url_of (GetFolderProfile token_id api_url folder_id) = api_url"
| "api_url_of (GetFolderRelations token_id api_url folder_id) = api_url"

text \<open>The action path each function assigns to \<^verbatim>\<open>action\<close>.\<close>

fun action_of :: "call \<Rightarrow> string" where
  "action_of (Login username password api_url) = ''Login''"
| "action_of (LoginPost username password api_url) = ''LoginPost''"
| "action_of (Logout token_id username api_url) = ''Logout''"
| "action_of (GetLoginUserId token_id api_url) = ''GetLoginUserID''"
| "action_of (GetUserDetailsByName token_id user_name api_url) = ''UserDetails/GetUserDetailsByName''"
| "action_of (GetUserDetailsById token_id user_id api_url) = ''UserDetails/GetUserDetailsByID''"
| "action_of (GetUserDetailsByEmail token_id email api_url) = ''UserDetails/GetUserDetailsByEmailID''"
| "action_of (GetReadonlyUsers token_id api_url) = ''UserDetails/GetReadonlyUsers''"
| "action_of (GetWebaccessUsers token_id api_url) = ''UserDetails/GetWebAccessUsers''"
| "action_of (GetUserGroups1 token_id user_id api_url) = ''UserDetails/GetUserGroup''"
| "action_of (GetConnectedUsers token_id api_url) = ''UserDetails/GetConnectedUsers''"
| "action_of (GetUserGroups token_id api_url user_id) = ''UserDetails/GetUserGroup''"
| "action_of (GetFileDetails token_id api_url file_id) = ''FileDetails/GetFileDetailsByID''"
| "action_of (GetFileDetailsByLocation token_id api_url location) = ''FileDetails/GetFileDetailsByLocation''"
| "action_of (GetFileProfile token_id api_url file_id) = ''FileDetails/GetFileProfile''"
| "action_of (GetCheckedOutFilesByUser token_id api_url user_id) = ''FileDetails/GetCheckedoutFilesByUser''"
| "action_of (GetFileVersions token_id api_url file_id) = ''FileDetails/GetFileVersion''"
| "action_of (GetFileRelations token_id api_url file_id) = ''FileDetails/GetFileRelations''"
| "action_of (GetFolderDetailsById token_id api_url folder_id) = ''FolderDetails/GetFolderDetailsByID''"
| "action_of (GetFolderDetailsByLocation token_id api_url location) = ''FolderDetails/GetFolderDetailsByLocation''"
| "action_of (GetFolderProfile token_id api_url folder_id) = ''FolderDetails/GetFolderProfile''"
| "action_of (GetFolderRelations token_id api_url folder_id) = ''FolderDetails/GetFolderRelations''"

text \<open>The text each function puts before the server message in its \<^verbatim>\<open>ValueError\<close>.\<close>

fun failure_label :: "call \<Rightarrow> string" where
  "failure_label (Login username password api_url) = ''Login failed. ''"
| "failure_label (LoginPost username password api_url) = ''Login failed. ''"
| "failure_label (Logout token_id username api_url) = ''Logout failed. ''"
| "failure_label (GetLoginUserId token_id api_url) = ''GetLoginUserID failed. ''"
| "failure_label (GetUserDetailsByName token_id user_name api_url) = ''Could not get user details. ''"
| "failure_label (GetUserDetailsById token_id user_id api_url) = ''Could not get user details. ''"
| "failure_label (GetUserDetailsByEmail token_id email api_url) = ''Could not get user details. ''"
| "failure_label (GetReadonlyUsers token_id api_url) = ''Could not get readonly users. ''"
| "failure_label (GetWebaccessUsers token_id api_url) = ''Could not get Web Access users. ''"
| "failure_label (GetUserGroups1 token_id user_id api_url) = ''Could not get user groups. ''"
| "failure_label (GetConnectedUsers token_id api_url) = ''Could not get connected users. ''"
| "failure_label (GetUserGroups token_id api_url user_id) = ''Could not get user groups. ''"
| "failure_label (GetFileDetails token_id api_url file_id) = ''Could not get file details. ''"
| "failure_label (GetFileDetailsByLocation token_id api_url location) = ''Could not get file details. ''"
| "failure_label (GetFileProfile token_id api_url file_id) = ''Could not get file profile. ''"
| "failure_label (GetCheckedOutFilesByUser token_id api_url user_id) = ''Could not get checked out files. ''"
| "failure_label (GetFileVersions token_id api_url file_id) = ''Could not get file versions. ''"
| "failure_label (GetFileRelations token_id api_url file_id) = ''Could not get related documents. ''"
| "failure_label (GetFolderDetailsById token_id api_url folder_id) = ''Could not get folder details. ''"
| "failure_label (GetFolderDetailsByLocation token_id api_url location) = ''Could not get folder details. ''"
| "failure_label (GetFolderProfile token_id api_url folder_id) = ''Could not get folder profile. ''"
| "failure_label (GetFolderRelations token_id api_url folder_id) = ''Could not get related documents. ''"

text \<open>The text each function puts before the status code in its \<^verbatim>\<open>RequestException\<close>.\<close>

fun transport_label :: "call \<Rightarrow> string" where
  "transport_label (Login username password api_url) = ''Login request failed with status code: ''"
| "transport_label (LoginPost username password api_url) = ''Login request failed with status code: ''"
| "transport_label (Logout token_id username api_url) = ''Logout request failed with status code: ''"
| "transport_label (GetLoginUserId token_id api_url) = ''GetLoginUserID request failed with status code: ''"
| "transport_label (GetUserDetailsByName token_id user_name api_url) = ''Could not get user details. Status code: ''"
| "transport_label (GetUserDetailsById token_id user_id api_url) = ''Could not get user details. Status code: ''"
| "transport_label (GetUserDetailsByEmail token_id email api_url) = ''Could not get user details. Status code: ''"
| "transport_label (GetReadonlyUsers token_id api_url) = ''Could not get readonly users. Status code: ''"
| "transport_label (GetWebaccessUsers token_id api_url) = ''Could not get Web Access users. Status code: ''"
| "transport_label (GetUserGroups1 token_id user_id api_url) = ''Could not get user groups. Status code: ''"
| "transport_label (GetConnectedUsers token_id api_url) = ''Could not get connected users. Status code: ''"
| "transport_label (GetUserGroups token_id api_url user_id) = ''Could not get user groups. Status code: ''"
| "transport_label (GetFileDetails token_id api_url file_id) = ''Could not get file details. Status code: ''"
| "transport_label (GetFileDetailsByLocation token_id api_url location) = ''Could not get file details. Status code: ''"
| "transport_label (GetFileProfile token_id api_url file_id) = ''Could not get file profile. Status code: ''"
| "transport_label (GetCheckedOutFilesByUser token_id api_url user_id) = ''Could not get checked out files. Status code: ''"
| "transport_label (GetFileVersions token_id api_url file_id) = ''Could not get file versions. Status code: ''"
| "transport_label (GetFileRelations token_id api_url file_id) = ''Could not get related documents. Status code: ''"
| "transport_label (GetFolderDetailsById token_id api_url folder_id) = ''Could not get folder details. Status code: ''"
| "transport_label (GetFolderDetailsByLocation token_id api_url location) = ''Could not get folder details. Status code: ''"
| "transport_label (GetFolderProfile token_id api_url folder_id) = ''Could not get folder profile. Status code: ''"
| "transport_label (GetFolderRelations token_id api_url folder_id) = ''Could not get related documents. Status code: ''"

text \<open>Which functions test the status code against \<^verbatim>\<open>"1"\<close> (failure) instead of \<^verbatim>\<open>"0"\<close> (success).\<close>

fun checks_for_one :: "call \<Rightarrow> bool" where
  "checks_for_one (Login username password api_url) = True"
| "checks_for_one (LoginPost username password api_url) = True"
| "checks_for_one (Logout token_id username api_url) = True"
| "checks_for_one (GetLoginUserId token_id api_url) = True"
| "checks_for_one (GetUserDetailsByName token_id user_name api_url) = False"
| "checks_for_one (GetUserDetailsById token_id user_id api_url) = False"
| "checks_for_one (GetUserDetailsByEmail token_id email api_url) = False"
| "checks_for_one (GetReadonlyUsers token_id api_url) = False"
| "checks_for_one (GetWebaccessUsers token_id api_url) = False"
| "checks_for_one (GetUserGroups1 token_id user_id api_url) = False"
| "checks_for_one (GetConnectedUsers token_id api_url) = False"
| "checks_for_one (GetUserGroups token_id api_url user_id) = False"
| "checks_for_one (GetFileDetails token_id api_url file_id) = False"
| "checks_for_one (GetFileDetailsByLocation token_id api_url location) = False"
| "checks_for_one (GetFileProfile token_id api_url file_id) = False"
| "checks_for_one (GetCheckedOutFilesByUser token_id api_url user_id) = False"
| "checks_for_one (GetFileVersions token_id api_url file_id) = False"
| "checks_for_one (GetFileRelations token_id api_url file_id) = False"
| "checks_for_one (GetFolderDetailsById token_id api_url folder_id) = False"
| "checks_for_one (GetFolderDetailsByLocation token_id api_url location) = False"
| "checks_for_one (GetFolderProfile token_id api_url folder_id) = False"
| "checks_for_one (GetFolderRelations token_id api_url folder_id) = False"

section \<open>Fixed collaborators and sample envelopes\<close>

text \<open>
  A transport that answers every request with the same response, a parser that returns
  the same tree for every body, and a dict display with string keys, for writing
  concrete runs.
\<close>

definition fixed_transport :: "response \<Rightarrow> transport" where
  "fixed_transport r request = Inr r"

definition fixed_parser :: "pyval \<Rightarrow> parser" where
  "fixed_parser d body = Inr d"

definition dict :: "(string \<times> pyval) list \<Rightarrow> pyval" where
  "dict kvs = PDict (map (\<lambda>kv. (PStr (fst kv), snd kv)) kvs)"

definition ok_response :: response where
  "ok_response = \<lparr>status_code = 200, content = ''<Docsvault/>''\<rparr>"

text \<open>An envelope with the given status code and message, and the given \<^verbatim>\<open>Result\<close> node.\<close>

definition envelope :: "string \<Rightarrow> string \<Rightarrow> pyval \<Rightarrow> pyval" where
  "envelope status message result =
     dict [(''Docsvault'',
       dict [(''Response'', dict [(''StatusCode'', PStr status), (''Message'', PStr message)]),
             (''Result'', result)])]"

text \<open>The same without a \<^verbatim>\<open>Result\<close> node.\<close>

definition envelope_without_result :: "string \<Rightarrow> string \<Rightarrow> pyval" where
  "envelope_without_result status message =
     dict [(''Docsvault'',
       dict [(''Response'', dict [(''StatusCode'', PStr status), (''Message'', PStr message)])])]"

text \<open>
  A \<^verbatim>\<open>FileDetail\<close> node with every field the file wrappers read, around the given
  \<^verbatim>\<open>Indexes\<close> node.
\<close>

definition sample_file_detail :: "pyval \<Rightarrow> pyval" where
  "sample_file_detail indexes =
     dict [(''FileID'', PStr ''7''), (''ParentID'', PStr ''3''), (''FileName'', PStr ''invoice.pdf''),
       (''Description'', PStr ''May invoice''), (''FlagName'', PStr ''Red''), (''FileSize'', PStr ''1024''),
       (''DocType'', PStr ''pdf''), (''Pages'', PStr ''2''), (''Version'', PStr ''1''),
       (''VersionNote'', PStr ''first''), (''VersionOwner'', PStr ''5''), (''VersionOwnerName'', PStr ''ann''),
       (''ModifiedDate'', PStr ''2023-05-02''), (''CreatedDate'', PStr ''2023-05-01''),
       (''AccessedDate'', PStr ''2023-05-03''), (''CheckedOut'', PStr ''true''), (''CheckedOutBy'', PStr ''5''),
       (''CheckedOutByName'', PStr ''ann''), (''OwnerID'', PStr ''5''), (''OwnerName'', PStr ''ann''),
       (''Location'', PStr ''Cabinet/Invoices/invoice.pdf''), (''DocNotes'', PStr ''none''),
       (''ProfileID'', PStr ''1''), (''ProfileName'', PStr ''Invoice''),
       (''ListOfIndexes'', dict [(''Indexes'', indexes)])]"

text \<open>One \<^verbatim>\<open>Indexes\<close> record, one \<^verbatim>\<open>UserDetail\<close> record and one \<^verbatim>\<open>Doc\<close> record.\<close>

definition sample_index :: pyval where
  "sample_index = dict [(''Index'', PStr ''Invoice No''), (''IndexValue'', PStr ''42'')]"

definition sample_user_detail :: pyval where
  "sample_user_detail =
     dict [(''UserID'', PStr ''5''), (''UserName'', PStr ''ann''), (''UserFullName'', PStr ''Ann Lee''),
       (''UserDescription'', PStr ''clerk''), (''UserEmail'', PStr ''ann@example.org''),
       (''DVAuthentication'', PStr ''true''), (''WebAccess'', PStr ''false''), (''LicenseType'', PStr ''ReadOnly'')]"

definition sample_doc :: pyval where
  "sample_doc = dict [(''DocID'', PStr ''9''), (''DocName'', PStr ''contract.pdf'')]"

section \<open>Evaluation rules\<close>

lemma ebind_Inl [simp]: "ebind (Inl e) f = Inl e"
  by (simp add: ebind_def)

lemma ebind_Inr [simp]: "ebind (Inr v) f = f v"
  by (simp add: ebind_def)

lemmas request_defs =
  docsvault_login_request_def
  docsvault_login_post_request_def
  docsvault_logout_request_def
  docsvault_get_login_user_id_request_def
  docsvault_get_user_details_by_name_request_def
  docsvault_get_user_details_by_id_request_def
  docsvault_get_user_details_by_email_request_def
  docsvault_get_readonly_users_request_def
  docsvault_get_webaccess_users_request_def
  docsvault_get_user_groups_1_request_def
  docsvault_get_connected_users_request_def
  docsvault_get_user_groups_request_def
  docsvault_get_file_details_request_def
  docsvault_get_file_details_by_location_request_def
  docsvault_get_file_profile_request_def
  docsvault_get_checked_out_files_by_user_request_def
  docsvault_get_file_versions_request_def
  docsvault_get_file_relations_request_def
  docsvault_get_folder_details_by_id_request_def
  docsvault_get_folder_details_by_location_request_def
  docsvault_get_folder_profile_request_def
  docsvault_get_folder_relations_request_def

lemmas response_defs =
  docsvault_login_response_def
  docsvault_login_post_response_def
  docsvault_logout_response_def
  docsvault_get_login_user_id_response_def
  docsvault_get_user_details_by_name_response_def
  docsvault_get_user_details_by_id_response_def
  docsvault_get_user_details_by_email_response_def
  docsvault_get_readonly_users_response_def
  docsvault_get_webaccess_users_response_def
  docsvault_get_user_groups_1_response_def
  docsvault_get_connected_users_response_def
  docsvault_get_user_groups_response_def
  docsvault_get_file_details_response_def
  docsvault_get_file_details_by_location_response_def
  docsvault_get_file_profile_response_def
  docsvault_get_checked_out_files_by_user_response_def
  docsvault_get_file_versions_response_def
  docsvault_get_file_relations_response_def
  docsvault_get_folder_details_by_id_response_def
  docsvault_get_folder_details_by_location_response_def
  docsvault_get_folder_profile_response_def
  docsvault_get_folder_relations_response_def

lemmas call_defs =
  docsvault_login_def
  docsvault_login_post_def
  docsvault_logout_def
  docsvault_get_login_user_id_def
  docsvault_get_user_details_by_name_def
  docsvault_get_user_details_by_id_def
  docsvault_get_user_details_by_email_def
  docsvault_get_readonly_users_def
  docsvault_get_webaccess_users_def
  docsvault_get_user_groups_1_def
  docsvault_get_connected_users_def
  docsvault_get_user_groups_def
  docsvault_get_file_details_def
  docsvault_get_file_details_by_location_def
  docsvault_get_file_profile_def
  docsvault_get_checked_out_files_by_user_def
  docsvault_get_file_versions_def
  docsvault_get_file_relations_def
  docsvault_get_folder_details_by_id_def
  docsvault_get_folder_details_by_location_def
  docsvault_get_folder_profile_def
  docsvault_get_folder_relations_def


lemmas sample_defs = fixed_transport_def fixed_parser_def dict_def ok_response_def envelope_def
  envelope_without_result_def

lemmas sample_node_defs = sample_file_detail_def sample_index_def sample_user_detail_def sample_doc_def

section \<open>Every call has the same shape\<close>

lemma run_eq: "run http parse c = ebind (http (request_of c)) (respond c parse)"
  by (cases c) (simp_all add: call_defs)

lemma respond_not_200:
  "status_code r \<noteq> 200 \<Longrightarrow>
   respond c parse r = Inl (RequestException (transport_label c @ str_int (status_code r)))"
  by (cases c) (simp_all add: response_defs)

lemma respond_200:
  "status_code r = 200 \<Longrightarrow> parse (content r) = Inr d \<Longrightarrow>
   getpath d [''Docsvault'', ''Response'', ''StatusCode''] = Inr status \<Longrightarrow>
   respond c parse r =
     (if checks_for_one c
      then (if status = PStr ''1''
            then ebind (getpath d [''Docsvault'', ''Response'', ''Message''])
                   (\<lambda>error_message. ebind (str_add (failure_label c) error_message) (\<lambda>msg. Inl (ValueError msg)))
            else on_success c d)
      else (if status = PStr ''0''
            then on_success c d
            else ebind (getpath d [''Docsvault'', ''Response'', ''Message''])
                   (\<lambda>error_message. ebind (str_add (failure_label c) error_message) (\<lambda>msg. Inl (ValueError msg)))))"
  by (cases c) (simp_all add: response_defs)

section \<open>Python's \<^verbatim>\<open>str\<close> of an integer determines the integer\<close>

lemma digit_char_inj: "a < 10 \<Longrightarrow> b < 10 \<Longrightarrow> digit_char a = digit_char b \<Longrightarrow> a = b"
proof -
  assume a: "a < 10" and b: "b < 10" and eq: "digit_char a = digit_char b"
  have da: "a \<in> set [0..<10]" using a by simp
  have db: "b \<in> set [0..<10]" using b by simp
  show ?thesis using da db eq
    unfolding digit_char_def by (simp add: upt_rec) (elim disjE; simp)
qed

lemma digit_char_not_minus: "a < 10 \<Longrightarrow> digit_char a \<noteq> CHR ''-''"
proof -
  assume a: "a < 10"
  have da: "a \<in> set [0..<10]" using a by simp
  show ?thesis using da unfolding digit_char_def by (simp add: upt_rec) (elim disjE; simp)
qed

lemma str_nat_nonempty: "str_nat n \<noteq> []"
  by (subst str_nat.simps) simp

lemma str_nat_inj: "str_nat n = str_nat m \<Longrightarrow> n = m"
proof (induction n arbitrary: m rule: str_nat.induct)
  case (1 n)
  show ?case
  proof (cases "n < 10")
    case True
    then have n: "str_nat n = [digit_char n]" by (subst str_nat.simps) simp
    show ?thesis
    proof (cases "m < 10")
      case True
      then have "str_nat m = [digit_char m]" by (subst str_nat.simps) simp
      with n "1.prems" \<open>n < 10\<close> True show ?thesis by (simp add: digit_char_inj)
    next
      case False
      then have "str_nat m = str_nat (m div 10) @ [digit_char (m mod 10)]"
        by (subst str_nat.simps) simp
      with n "1.prems" str_nat_nonempty [of "m div 10"] show ?thesis by simp
    qed
  next
    case False
    then have n: "str_nat n = str_nat (n div 10) @ [digit_char (n mod 10)]"
      by (subst str_nat.simps) simp
    show ?thesis
    proof (cases "m < 10")
      case True
      then have "str_nat m = [digit_char m]" by (subst str_nat.simps) simp
      with n "1.prems" str_nat_nonempty [of "n div 10"] show ?thesis by simp
    next
      case m: False
      then have "str_nat m = str_nat (m div 10) @ [digit_char (m mod 10)]"
        by (subst str_nat.simps) simp
      with n "1.prems" have a: "str_nat (n div 10) = str_nat (m div 10)"
        and b: "digit_char (n mod 10) = digit_char (m mod 10)" by simp_all
      from "1.IH" [OF False a] have "n div 10 = m div 10" .
      moreover from b have "n mod 10 = m mod 10" by (simp add: digit_char_inj)
      ultimately show ?thesis by (metis div_mult_mod_eq)
    qed
  qed
qed

lemma str_nat_no_minus: "CHR ''-'' \<notin> set (str_nat n)"
proof (induction n rule: str_nat.induct)
  case (1 n)
  show ?case
  proof (cases "n < 10")
    case True
    then show ?thesis by (subst str_nat.simps) (simp add: digit_char_not_minus [symmetric] digit_char_not_minus)
  next
    case False
    with "1.IH" show ?thesis
      by (subst str_nat.simps) (simp add: digit_char_not_minus [of "n mod 10", symmetric] digit_char_not_minus)
  qed
qed

lemma str_int_inj: "str_int i = str_int j \<Longrightarrow> i = j"
proof -
  assume eq: "str_int i = str_int j"
  have hd_neg: "\<And>k. k < 0 \<Longrightarrow> hd (str_int k) = CHR ''-''" by (simp add: str_int_def)
  have hd_pos: "\<And>k. \<not> k < 0 \<Longrightarrow> hd (str_int k) \<noteq> CHR ''-''"
  proof -
    fix k :: int assume "\<not> k < 0"
    then have "str_int k = str_nat (nat k)" by (simp add: str_int_def)
    moreover have "hd (str_nat (nat k)) \<in> set (str_nat (nat k))"
      using str_nat_nonempty by simp
    ultimately show "hd (str_int k) \<noteq> CHR ''-''" using str_nat_no_minus [of "nat k"] by metis
  qed
  show ?thesis
  proof (cases "i < 0")
    case True
    then have "j < 0" using hd_neg [OF True] hd_pos [of j] eq by auto
    with True eq have "str_nat (nat (- i)) = str_nat (nat (- j))" by (simp add: str_int_def)
    then have "nat (- i) = nat (- j)" by (rule str_nat_inj)
    with True \<open>j < 0\<close> show ?thesis by simp
  next
    case False
    then have "\<not> j < 0" using hd_neg [of j] hd_pos [OF False] eq by auto
    with False eq have "str_nat (nat i) = str_nat (nat j)" by (simp add: str_int_def)
    then have "nat i = nat j" by (rule str_nat_inj)
    with False \<open>\<not> j < 0\<close> show ?thesis by simp
  qed
qed

section \<open>Transport errors\<close>

text \<open>
  Claim C3. For every operation: when the HTTP layer answers with a status code other
  than 200, the call raises \<^verbatim>\<open>requests.exceptions.RequestException\<close> whose message is
  the operation's own label followed by \<^verbatim>\<open>str\<close> of that status code. The parser is
  arbitrary in the statement, so the outcome does not depend on the body or on parsing
  it, and the exception is not the \<^verbatim>\<open>ValueError\<close> of an application error. By
  \<open>str_int_inj\<close> the message determines the status code.
\<close>

theorem non_200_is_transport_error:
  assumes "http (request_of c) = Inr r" and "status_code r \<noteq> 200"
  shows "run http parse c = Inl (RequestException (transport_label c @ str_int (status_code r)))"
  using assms by (simp add: run_eq respond_not_200)

theorem non_200_is_transport_error_witness:
  "(\<lambda>_. Inr \<lparr>status_code = 404, content = ''Not Found''\<rparr>) (request_of (GetReadonlyUsers ''t'' ''http://host/''))
     = Inr \<lparr>status_code = 404, content = ''Not Found''\<rparr>
   \<and> status_code \<lparr>status_code = 404, content = ''Not Found''\<rparr> \<noteq> 200
   \<and> run (\<lambda>_. Inr \<lparr>status_code = 404, content = ''Not Found''\<rparr>) (\<lambda>_. Inl (OtherError ''unused''))
        (GetReadonlyUsers ''t'' ''http://host/'')
     = Inl (RequestException ''Could not get readonly users. Status code: 404'')"
proof -
  have s: "str_int 404 = ''404''" by code_simp
  show ?thesis
    using non_200_is_transport_error [of "\<lambda>_. Inr \<lparr>status_code = 404, content = ''Not Found''\<rparr>"
        "GetReadonlyUsers ''t'' ''http://host/''" "\<lparr>status_code = 404, content = ''Not Found''\<rparr>"
        "\<lambda>_. Inl (OtherError ''unused'')"]
    by (simp add: s)
qed

section \<open>Application errors\<close>

text \<open>
  Claim C4. For every operation: an HTTP 200 response whose envelope has the failure
  indicator (\<^verbatim>\<open>StatusCode\<close> \<^verbatim>\<open>"1"\<close>) and a textual \<^verbatim>\<open>Message\<close> makes the call raise
  \<^verbatim>\<open>ValueError\<close> with the operation's label followed by the server's message, unchanged.
  The witness is the scenario of the specification: a login answered with status
  \<^verbatim>\<open>"1"\<close> and message \<^verbatim>\<open>bad creds\<close> fails with exactly \<^verbatim>\<open>Login failed. bad creds\<close>.
\<close>

theorem failure_envelope_is_application_error:
  assumes "http (request_of c) = Inr r" and "status_code r = 200" and "parse (content r) = Inr d"
    and "getpath d [''Docsvault'', ''Response'', ''StatusCode''] = Inr (PStr ''1'')"
    and "getpath d [''Docsvault'', ''Response'', ''Message''] = Inr (PStr m)"
  shows "run http parse c = Inl (ValueError (failure_label c @ m))"
  using assms by (simp add: run_eq respond_200)

theorem failure_envelope_is_application_error_witness:
  "fixed_transport ok_response (request_of (Login ''a'' ''b'' ''http://host'')) = Inr ok_response
   \<and> status_code ok_response = 200
   \<and> fixed_parser (envelope_without_result ''1'' ''bad creds'') (content ok_response)
       = Inr (envelope_without_result ''1'' ''bad creds'')
   \<and> getpath (envelope_without_result ''1'' ''bad creds'') [''Docsvault'', ''Response'', ''StatusCode'']
       = Inr (PStr ''1'')
   \<and> getpath (envelope_without_result ''1'' ''bad creds'') [''Docsvault'', ''Response'', ''Message'']
       = Inr (PStr ''bad creds'')
   \<and> run (fixed_transport ok_response) (fixed_parser (envelope_without_result ''1'' ''bad creds''))
        (Login ''a'' ''b'' ''http://host'')
       = Inl (ValueError ''Login failed. bad creds'')"
  using failure_envelope_is_application_error [of "fixed_transport ok_response"
      "Login ''a'' ''b'' ''http://host''" ok_response
      "fixed_parser (envelope_without_result ''1'' ''bad creds'')"
      "envelope_without_result ''1'' ''bad creds''" "''bad creds''"]
  by (simp add: sample_defs)

section \<open>Polarity of the status check\<close>

text \<open>
  Claim C6, as the code has it. Four functions test the status code against \<^verbatim>\<open>"1"\<close>:
  \<^verbatim>\<open>docsvault_login\<close>, \<^verbatim>\<open>docsvault_login_post\<close>, \<^verbatim>\<open>docsvault_logout\<close> and also
  \<^verbatim>\<open>docsvault_get_login_user_id\<close>. They raise the server-reported \<^verbatim>\<open>ValueError\<close> exactly
  when the code is the string \<^verbatim>\<open>"1"\<close> and take their success branch for every other
  value. Every other function takes its success branch exactly when the code is the
  string \<^verbatim>\<open>"0"\<close> and raises the server-reported \<^verbatim>\<open>ValueError\<close> for every other value.
\<close>

theorem status_check_polarity:
  assumes "status_code r = 200" and "parse (content r) = Inr d"
    and "getpath d [''Docsvault'', ''Response'', ''StatusCode''] = Inr status"
    and "getpath d [''Docsvault'', ''Response'', ''Message''] = Inr (PStr m)"
  shows "respond c parse r =
     (if (\<exists>x y z. c = Login x y z \<or> c = LoginPost x y z \<or> c = Logout x y z) \<or> (\<exists>x y. c = GetLoginUserId x y)
      then (if status = PStr ''1'' then Inl (ValueError (failure_label c @ m)) else on_success c d)
      else (if status = PStr ''0'' then on_success c d else Inl (ValueError (failure_label c @ m))))"
proof -
  have "checks_for_one c \<longleftrightarrow>
    (\<exists>x y z. c = Login x y z \<or> c = LoginPost x y z \<or> c = Logout x y z) \<or> (\<exists>x y. c = GetLoginUserId x y)"
    by (cases c) simp_all
  then show ?thesis using assms by (simp add: respond_200)
qed

theorem status_check_polarity_witness:
  "status_code ok_response = 200
   \<and> fixed_parser (envelope ''2'' ''no'' (dict [(''TokenID'', PStr ''abc'')])) (content ok_response)
       = Inr (envelope ''2'' ''no'' (dict [(''TokenID'', PStr ''abc'')]))
   \<and> getpath (envelope ''2'' ''no'' (dict [(''TokenID'', PStr ''abc'')])) [''Docsvault'', ''Response'', ''StatusCode'']
       = Inr (PStr ''2'')
   \<and> getpath (envelope ''2'' ''no'' (dict [(''TokenID'', PStr ''abc'')])) [''Docsvault'', ''Response'', ''Message'']
       = Inr (PStr ''no'')
   \<and> respond (Login ''a'' ''b'' ''http://host'')
         (fixed_parser (envelope ''2'' ''no'' (dict [(''TokenID'', PStr ''abc'')]))) ok_response
       = Inr (PStr ''abc'')
   \<and> respond (GetReadonlyUsers ''t'' ''http://host'')
         (fixed_parser (envelope ''2'' ''no'' (dict [(''TokenID'', PStr ''abc'')]))) ok_response
       = Inl (ValueError ''Could not get readonly users. no'')"
  using
    status_check_polarity [of ok_response "fixed_parser (envelope ''2'' ''no'' (dict [(''TokenID'', PStr ''abc'')]))"
      "envelope ''2'' ''no'' (dict [(''TokenID'', PStr ''abc'')])" "PStr ''2''" "''no''"
      "Login ''a'' ''b'' ''http://host''"]
    status_check_polarity [of ok_response "fixed_parser (envelope ''2'' ''no'' (dict [(''TokenID'', PStr ''abc'')]))"
      "envelope ''2'' ''no'' (dict [(''TokenID'', PStr ''abc'')])" "PStr ''2''" "''no''"
      "GetReadonlyUsers ''t'' ''http://host''"]
  by (simp add: sample_defs docsvault_login_success_def)

text \<open>
  The claim as written puts \<^verbatim>\<open>docsvault_get_login_user_id\<close> among the functions that fail
  on every code but \<^verbatim>\<open>"0"\<close>. With the code \<^verbatim>\<open>"2"\<close> it returns the user id.
\<close>

theorem login_user_id_accepts_status_2:
  "docsvault_get_login_user_id (fixed_transport ok_response)
     (fixed_parser (envelope ''2'' ''no'' (dict [(''UserID'', PStr ''42'')]))) ''t'' ''http://host''
   = Inr (PStr ''42'')"
  by (simp add: docsvault_get_login_user_id_def docsvault_get_login_user_id_response_def
      docsvault_get_login_user_id_success_def sample_defs)

section \<open>Where the login variants read the token\<close>

text \<open>
  Claim C8. For the same success envelope, \<^verbatim>\<open>docsvault_login\<close> returns the value of the
  nested field \<^verbatim>\<open>Result.TokenID\<close>, while \<^verbatim>\<open>docsvault_login_post\<close> returns the value of the
  top-level \<^verbatim>\<open>Result\<close> field itself.
\<close>

theorem login_variants_read_different_fields:
  assumes "status_code r = 200" and "parse (content r) = Inr d"
    and "getpath d [''Docsvault'', ''Response'', ''StatusCode''] = Inr status" and "status \<noteq> PStr ''1''"
    and "getpath d [''Docsvault'', ''Result''] = Inr result"
    and "getitem result ''TokenID'' = Inr token" and "token \<noteq> PNone" and "token \<noteq> PStr ''''"
  shows "docsvault_login_response parse r = Inr token
       \<and> docsvault_login_post_response parse r = Inr result"
proof -
  from assms(6) have "result \<noteq> PNone" and "result \<noteq> PStr ''''" by auto
  moreover from assms(5,6) have "getpath d [''Docsvault'', ''Result'', ''TokenID''] = Inr token"
    by (auto simp: ebind_def split: sum.splits)
  ultimately show ?thesis using assms
    by (simp add: docsvault_login_response_def docsvault_login_post_response_def
        docsvault_login_success_def docsvault_login_post_success_def)
qed

theorem login_variants_read_different_fields_witness:
  "status_code ok_response = 200
   \<and> fixed_parser (envelope ''0'' ''ok'' (dict [(''TokenID'', PStr ''abc'')])) (content ok_response)
       = Inr (envelope ''0'' ''ok'' (dict [(''TokenID'', PStr ''abc'')]))
   \<and> getpath (envelope ''0'' ''ok'' (dict [(''TokenID'', PStr ''abc'')])) [''Docsvault'', ''Response'', ''StatusCode'']
       = Inr (PStr ''0'')
   \<and> PStr ''0'' \<noteq> PStr ''1''
   \<and> getpath (envelope ''0'' ''ok'' (dict [(''TokenID'', PStr ''abc'')])) [''Docsvault'', ''Result'']
       = Inr (dict [(''TokenID'', PStr ''abc'')])
   \<and> getitem (dict [(''TokenID'', PStr ''abc'')]) ''TokenID'' = Inr (PStr ''abc'')
   \<and> PStr ''abc'' \<noteq> PNone \<and> PStr ''abc'' \<noteq> PStr ''''
   \<and> docsvault_login_response (fixed_parser (envelope ''0'' ''ok'' (dict [(''TokenID'', PStr ''abc'')]))) ok_response
       = Inr (PStr ''abc'')
   \<and> docsvault_login_post_response (fixed_parser (envelope ''0'' ''ok'' (dict [(''TokenID'', PStr ''abc'')]))) ok_response
       = Inr (dict [(''TokenID'', PStr ''abc'')])"
  using login_variants_read_different_fields [of ok_response
      "fixed_parser (envelope ''0'' ''ok'' (dict [(''TokenID'', PStr ''abc'')]))"
      "envelope ''0'' ''ok'' (dict [(''TokenID'', PStr ''abc'')])" "PStr ''0''"
      "dict [(''TokenID'', PStr ''abc'')]" "PStr ''abc''"]
  by (simp add: sample_defs)

section \<open>Login without a token\<close>

text \<open>
  A token field that is present and empty (\<^verbatim>\<open>None\<close> for an empty element, or the empty
  string) is rejected with the \<^verbatim>\<open>ValueError\<close> of lines 56 and 115.
\<close>

lemma login_rejects_empty_token:
  assumes "status_code r = 200" and "parse (content r) = Inr d"
    and "getpath d [''Docsvault'', ''Response'', ''StatusCode''] = Inr status" and "status \<noteq> PStr ''1''"
    and "getpath d [''Docsvault'', ''Result'', ''TokenID''] = Inr token"
    and "token = PNone \<or> token = PStr ''''"
  shows "docsvault_login_response parse r
       = Inl (ValueError ''Login failed. Token ID not found in API response.'')"
  using assms by (auto simp: docsvault_login_response_def docsvault_login_success_def)

lemma login_post_rejects_empty_token:
  assumes "status_code r = 200" and "parse (content r) = Inr d"
    and "getpath d [''Docsvault'', ''Response'', ''StatusCode''] = Inr status" and "status \<noteq> PStr ''1''"
    and "getpath d [''Docsvault'', ''Result''] = Inr token"
    and "token = PNone \<or> token = PStr ''''"
  shows "docsvault_login_post_response parse r
       = Inl (ValueError ''Login failed. Token ID not found in API response.'')"
  using assms by (auto simp: docsvault_login_post_response_def docsvault_login_post_success_def)

text \<open>
  Claim C5 asks the same \<^verbatim>\<open>ValueError\<close> for a token field that is absent. There the
  subscript of lines 54 and 113 raises before the test of lines 55 and 114 is reached:
  for a success envelope without a \<^verbatim>\<open>Result\<close> node both variants raise
  \<^verbatim>\<open>KeyError('Result')\<close>, and for a \<^verbatim>\<open>Result\<close> node without \<^verbatim>\<open>TokenID\<close>
  \<^verbatim>\<open>docsvault_login\<close> raises \<^verbatim>\<open>KeyError('TokenID')\<close>.
\<close>

theorem login_absent_token_raises_key_error:
  "docsvault_login (fixed_transport ok_response) (fixed_parser (envelope_without_result ''0'' ''ok''))
     ''a'' ''b'' ''http://host'' = Inl (KeyError ''Result'')
   \<and> docsvault_login_post (fixed_transport ok_response) (fixed_parser (envelope_without_result ''0'' ''ok''))
     ''a'' ''b'' ''http://host'' = Inl (KeyError ''Result'')
   \<and> docsvault_login (fixed_transport ok_response)
       (fixed_parser (envelope ''0'' ''ok'' (dict [(''UserName'', PStr ''a'')])))
     ''a'' ''b'' ''http://host'' = Inl (KeyError ''TokenID'')"
  by (simp add: docsvault_login_def docsvault_login_response_def docsvault_login_success_def
      docsvault_login_post_def docsvault_login_post_response_def docsvault_login_post_success_def
      sample_defs)

section \<open>Request URLs\<close>

lemma rstrip_slash:
  "rstrip (s @ replicate n (CHR ''/'')) ''/'' = rstrip s ''/''"
proof -
  have "dropWhile (\<lambda>c. c = CHR ''/'') (replicate n (CHR ''/'') @ rev s)
      = dropWhile (\<lambda>c. c = CHR ''/'') (rev s)"
    by (rule dropWhile_append2) simp
  then show ?thesis by (simp add: rstrip_def)
qed

lemma rstrip_no_trailing: "s = [] \<or> last s \<noteq> CHR ''/'' \<Longrightarrow> rstrip s ''/'' = s"
  by (cases s rule: rev_cases) (auto simp: rstrip_def)


text \<open>
  Every function but \<^verbatim>\<open>docsvault_login\<close> sends its request to the base URL without its
  trailing slashes, followed by \<^verbatim>\<open>/DocsvaultAPI/\<close> and one copy of the action path.
\<close>

lemma request_url_other_calls:
  "\<nexists>u p a. c = Login u p a \<Longrightarrow>
   url (request_of c) = rstrip (api_url_of c) ''/'' @ ''/DocsvaultAPI/'' @ action_of c"
  by (cases c) (simp_all add: request_defs)

lemma login_request_url:
  "url (docsvault_login_request username password api_url)
     = rstrip api_url ''/'' @ ''/DocsvaultAPI/'' @ ''Login'' @ ''Login''"
  by (simp add: docsvault_login_request_def)

text \<open>
  Claim C1 asks this of every operation. \<^verbatim>\<open>docsvault_login\<close> appends the action a second
  time (line 40): for the base URL \<^verbatim>\<open>http://host\<close> its GET goes to
  \<^verbatim>\<open>http://host/DocsvaultAPI/LoginLogin\<close>, not to \<^verbatim>\<open>http://host/DocsvaultAPI/Login\<close>.
\<close>

theorem login_request_repeats_action:
  "url (docsvault_login_request ''a'' ''b'' ''http://host'') = ''http://host/DocsvaultAPI/LoginLogin''
   \<and> url (docsvault_login_request ''a'' ''b'' ''http://host'') \<noteq> ''http://host/DocsvaultAPI/Login''"
  by (simp add: docsvault_login_request_def rstrip_def)

section \<open>Single records and lists\<close>

text \<open>
  \<^verbatim>\<open>docsvault_get_readonly_users\<close> wraps a lone \<^verbatim>\<open>UserDetail\<close> record in a list before it
  projects (lines 426-428): one record gives a list of one projected record, two records
  a list of two.
\<close>

lemma readonly_users_one_record:
  "docsvault_get_readonly_users (fixed_transport ok_response)
     (fixed_parser (envelope ''0'' ''ok'' (dict [(''UserDetail'', sample_user_detail)]))) ''t'' ''http://host''
   = Inr (PList [dict [(''user_id'', PStr ''5''), (''user_name'', PStr ''ann''), (''full_name'', PStr ''Ann Lee''),
       (''description'', PStr ''clerk''), (''email'', PStr ''ann@example.org''),
       (''dv_authentication'', PStr ''true''), (''web_access'', PStr ''false''),
       (''license_type'', PStr ''ReadOnly'')]])"
  by (simp add: docsvault_get_readonly_users_def docsvault_get_readonly_users_response_def
      docsvault_get_readonly_users_success_def sample_defs sample_node_defs dict_literal_def list_comp_def)

lemma readonly_users_two_records:
  "docsvault_get_readonly_users (fixed_transport ok_response)
     (fixed_parser (envelope ''0'' ''ok'' (dict [(''UserDetail'', PList [sample_user_detail, sample_user_detail])])))
     ''t'' ''http://host''
   = Inr (PList [dict [(''user_id'', PStr ''5''), (''user_name'', PStr ''ann''), (''full_name'', PStr ''Ann Lee''),
       (''description'', PStr ''clerk''), (''email'', PStr ''ann@example.org''),
       (''dv_authentication'', PStr ''true''), (''web_access'', PStr ''false''),
       (''license_type'', PStr ''ReadOnly'')],
      dict [(''user_id'', PStr ''5''), (''user_name'', PStr ''ann''), (''full_name'', PStr ''Ann Lee''),
       (''description'', PStr ''clerk''), (''email'', PStr ''ann@example.org''),
       (''dv_authentication'', PStr ''true''), (''web_access'', PStr ''false''),
       (''license_type'', PStr ''ReadOnly'')]])"
  by (simp add: docsvault_get_readonly_users_def docsvault_get_readonly_users_response_def
      docsvault_get_readonly_users_success_def sample_defs sample_node_defs dict_literal_def list_comp_def)

text \<open>
  Claim C2 asks the same of every node that may be a lone record or a list, the nested
  ones included. \<^verbatim>\<open>docsvault_get_file_details\<close> iterates over
  \<^verbatim>\<open>ListOfIndexes.Indexes\<close> and \<^verbatim>\<open>docsvault_get_folder_relations\<close> over \<^verbatim>\<open>RelatedDocs.Doc\<close>
  without that wrapping. With exactly one such record the loop runs over the keys of the
  record, which are strings: the first raises \<^verbatim>\<open>TypeError\<close> at \<^verbatim>\<open>index["Index"]\<close>, the
  second \<^verbatim>\<open>AttributeError\<close> at \<^verbatim>\<open>doc.get\<close>, and neither returns a one-element list.
\<close>

theorem nested_single_record_is_not_wrapped:
  "docsvault_get_file_details (fixed_transport ok_response)
     (fixed_parser (envelope ''0'' ''ok'' (dict [(''FileDetail'', sample_file_detail sample_index)])))
     ''t'' ''http://host'' ''7'' = Inl TypeError
   \<and> docsvault_get_folder_relations (fixed_transport ok_response)
     (fixed_parser (envelope ''0'' ''ok'' (dict [(''RelatedDocs'', dict [(''Doc'', sample_doc)])])))
     ''t'' ''http://host'' ''3'' = Inl AttributeError"
  by (simp add: docsvault_get_file_details_def docsvault_get_file_details_response_def
      docsvault_get_file_details_success_def docsvault_get_folder_relations_def
      docsvault_get_folder_relations_response_def docsvault_get_folder_relations_success_def
      sample_defs sample_node_defs dict_literal_def list_comp_def get_def)


section \<open>No \<^verbatim>\<open>FileDetail\<close> node\<close>




section \<open>Field-by-field projection of a file\<close>

lemma index_records:
  assumes "list_all2 (\<lambda>ix iv. getitem ix ''Index'' = Inr (fst iv) \<and> getitem ix ''IndexValue'' = Inr (snd iv)) ixs ivs"
  shows "sequence (map (\<lambda>index. dict_literal
                 [(''index'', getitem index ''Index''),
                  (''index_value'', getitem index ''IndexValue'')]) ixs)
      = Inr (map (\<lambda>iv. PDict [(PStr ''index'', fst iv), (PStr ''index_value'', snd iv)]) ivs)"
  using assms by (induction rule: list_all2_induct) (simp_all add: dict_literal_def)

text \<open>
  Claim C7. For a success envelope whose \<^verbatim>\<open>FileDetail\<close> node carries the fields the
  wrappers read: \<^verbatim>\<open>docsvault_get_file_details\<close> returns \<^verbatim>\<open>checked_out\<close> as the boolean
  "\<^verbatim>\<open>CheckedOut\<close> is present and is the string \<^verbatim>\<open>true\<close>" (so any other value, or an absent
  \<^verbatim>\<open>CheckedOut\<close>, gives false), while \<^verbatim>\<open>docsvault_get_file_details_by_location\<close> returns
  the value of \<^verbatim>\<open>CheckedOut\<close> itself. Every other key of both results holds the value of
  its source field unchanged; the \<^verbatim>\<open>indexes\<close> of the first are the \<^verbatim>\<open>Index\<close> and
  \<^verbatim>\<open>IndexValue\<close> of each record under new keys, the \<^verbatim>\<open>list_of_indexes\<close> of the second is
  the \<^verbatim>\<open>Indexes\<close> node as it is.
\<close>

theorem checked_out_coercion_is_field_by_field:
  assumes "status_code r = 200" and "parse (content r) = Inr d"
    and "getpath d [''Docsvault'', ''Response'', ''StatusCode''] = Inr (PStr ''0'')"
    and "getpath d [''Docsvault'', ''Result'', ''FileDetail''] = Inr (PDict fd)"
    and "map_of fd (PStr ''FileID'') = Some file_id"
    and "map_of fd (PStr ''ParentID'') = Some parent_id"
    and "map_of fd (PStr ''FileName'') = Some file_name"
    and "map_of fd (PStr ''Description'') = Some description"
    and "map_of fd (PStr ''FlagName'') = Some flag_name"
    and "map_of fd (PStr ''FileSize'') = Some file_size"
    and "map_of fd (PStr ''DocType'') = Some doc_type"
    and "map_of fd (PStr ''Pages'') = Some pages"
    and "map_of fd (PStr ''Version'') = Some version"
    and "map_of fd (PStr ''VersionNote'') = Some version_note"
    and "map_of fd (PStr ''VersionOwner'') = Some version_owner"
    and "map_of fd (PStr ''VersionOwnerName'') = Some version_owner_name"
    and "map_of fd (PStr ''ModifiedDate'') = Some modified_date"
    and "map_of fd (PStr ''CreatedDate'') = Some created_date"
    and "map_of fd (PStr ''AccessedDate'') = Some accessed_date"
    and "map_of fd (PStr ''OwnerID'') = Some owner_id"
    and "map_of fd (PStr ''OwnerName'') = Some owner_name"
    and "map_of fd (PStr ''Location'') = Some location"
    and "map_of fd (PStr ''DocNotes'') = Some doc_notes"
    and "map_of fd (PStr ''ProfileID'') = Some profile_id"
    and "map_of fd (PStr ''ProfileName'') = Some profile_name"
    and "map_of fd (PStr ''ListOfIndexes'') = Some (PDict li)"
    and "map_of li (PStr ''Indexes'') = Some (PList ixs)"
    and "list_all2 (\<lambda>ix iv. getitem ix ''Index'' = Inr (fst iv) \<and> getitem ix ''IndexValue'' = Inr (snd iv)) ixs ivs"
  shows "docsvault_get_file_details_response parse r
           = Inr (PDict
            [(PStr ''file_id'', file_id),
             (PStr ''parent_id'', parent_id),
             (PStr ''file_name'', file_name),
             (PStr ''description'', description),
             (PStr ''flag_name'', flag_name),
             (PStr ''file_size'', file_size),
             (PStr ''doc_type'', doc_type),
             (PStr ''pages'', pages),
             (PStr ''version'', version),
             (PStr ''version_note'', version_note),
             (PStr ''version_owner'', version_owner),
             (PStr ''version_owner_name'', version_owner_name),
             (PStr ''modified_date'', modified_date),
             (PStr ''created_date'', created_date),
             (PStr ''accessed_date'', accessed_date),
             (PStr ''checked_out'', PBool (map_of fd (PStr ''CheckedOut'') = Some (PStr ''true''))),
             (PStr ''checked_out_by'', (case map_of fd (PStr ''CheckedOutBy'') of None \<Rightarrow> PNone | Some v \<Rightarrow> v)),
             (PStr ''checked_out_by_name'', (case map_of fd (PStr ''CheckedOutByName'') of None \<Rightarrow> PNone | Some v \<Rightarrow> v)),
             (PStr ''owner_id'', owner_id),
             (PStr ''owner_name'', owner_name),
             (PStr ''location'', location),
             (PStr ''doc_notes'', doc_notes),
             (PStr ''profile_id'', profile_id),
             (PStr ''profile_name'', profile_name),
             (PStr ''indexes'',
               PList (map (\<lambda>iv. PDict [(PStr ''index'', fst iv), (PStr ''index_value'', snd iv)]) ivs))])
       \<and> (map_of fd (PStr ''CheckedOut'') = Some checked_out
            \<and> map_of fd (PStr ''CheckedOutBy'') = Some checked_out_by
            \<and> map_of fd (PStr ''CheckedOutByName'') = Some checked_out_by_name
          \<longrightarrow> docsvault_get_file_details_by_location_response parse r
           = Inr (PDict
            [(PStr ''file_id'', file_id),
             (PStr ''parent_id'', parent_id),
             (PStr ''file_name'', file_name),
             (PStr ''description'', description),
             (PStr ''flag_name'', flag_name),
             (PStr ''file_size'', file_size),
             (PStr ''doc_type'', doc_type),
             (PStr ''pages'', pages),
             (PStr ''version'', version),
             (PStr ''version_note'', version_note),
             (PStr ''version_owner'', version_owner),
             (PStr ''version_owner_name'', version_owner_name),
             (PStr ''modified_date'', modified_date),
             (PStr ''created_date'', created_date),
             (PStr ''accessed_date'', accessed_date),
             (PStr ''checked_out'', checked_out),
             (PStr ''checked_out_by'', checked_out_by),
             (PStr ''checked_out_by_name'', checked_out_by_name),
             (PStr ''owner_id'', owner_id),
             (PStr ''owner_name'', owner_name),
             (PStr ''location'', location),
             (PStr ''doc_notes'', doc_notes),
             (PStr ''profile_id'', profile_id),
             (PStr ''profile_name'', profile_name),
             (PStr ''list_of_indexes'', PList ixs)]))"
proof -
  have ix: "sequence (map (\<lambda>index. dict_literal
                 [(''index'', getitem index ''Index''),
                  (''index_value'', getitem index ''IndexValue'')]) ixs)
      = Inr (map (\<lambda>iv. PDict [(PStr ''index'', fst iv), (PStr ''index_value'', snd iv)]) ivs)"
    using assms(28) by (rule index_records)
  have p: "getpath (PDict fd) [''ListOfIndexes'', ''Indexes''] = Inr (PList ixs)"
    using assms(26,27) by simp
  have a: "docsvault_get_file_details_success d = Inr (PDict
            [(PStr ''file_id'', file_id),
             (PStr ''parent_id'', parent_id),
             (PStr ''file_name'', file_name),
             (PStr ''description'', description),
             (PStr ''flag_name'', flag_name),
             (PStr ''file_size'', file_size),
             (PStr ''doc_type'', doc_type),
             (PStr ''pages'', pages),
             (PStr ''version'', version),
             (PStr ''version_note'', version_note),
             (PStr ''version_owner'', version_owner),
             (PStr ''version_owner_name'', version_owner_name),
             (PStr ''modified_date'', modified_date),
             (PStr ''created_date'', created_date),
             (PStr ''accessed_date'', accessed_date),
             (PStr ''checked_out'', PBool (map_of fd (PStr ''CheckedOut'') = Some (PStr ''true''))),
             (PStr ''checked_out_by'', (case map_of fd (PStr ''CheckedOutBy'') of None \<Rightarrow> PNone | Some v \<Rightarrow> v)),
             (PStr ''checked_out_by_name'', (case map_of fd (PStr ''CheckedOutByName'') of None \<Rightarrow> PNone | Some v \<Rightarrow> v)),
             (PStr ''owner_id'', owner_id),
             (PStr ''owner_name'', owner_name),
             (PStr ''location'', location),
             (PStr ''doc_notes'', doc_notes),
             (PStr ''profile_id'', profile_id),
             (PStr ''profile_name'', profile_name),
             (PStr ''indexes'',
               PList (map (\<lambda>iv. PDict [(PStr ''index'', fst iv), (PStr ''index_value'', snd iv)]) ivs))])"
    using assms(4-25) p ix
    by (simp add: docsvault_get_file_details_success_def dict_literal_def list_comp_def get_def
        del: getpath.simps(2) split: option.splits)
  have b: "docsvault_get_file_details_by_location_success d = Inr (PDict
            [(PStr ''file_id'', file_id),
             (PStr ''parent_id'', parent_id),
             (PStr ''file_name'', file_name),
             (PStr ''description'', description),
             (PStr ''flag_name'', flag_name),
             (PStr ''file_size'', file_size),
             (PStr ''doc_type'', doc_type),
             (PStr ''pages'', pages),
             (PStr ''version'', version),
             (PStr ''version_note'', version_note),
             (PStr ''version_owner'', version_owner),
             (PStr ''version_owner_name'', version_owner_name),
             (PStr ''modified_date'', modified_date),
             (PStr ''created_date'', created_date),
             (PStr ''accessed_date'', accessed_date),
             (PStr ''checked_out'', checked_out),
             (PStr ''checked_out_by'', checked_out_by),
             (PStr ''checked_out_by_name'', checked_out_by_name),
             (PStr ''owner_id'', owner_id),
             (PStr ''owner_name'', owner_name),
             (PStr ''location'', location),
             (PStr ''doc_notes'', doc_notes),
             (PStr ''profile_id'', profile_id),
             (PStr ''profile_name'', profile_name),
             (PStr ''list_of_indexes'', PList ixs)])"
    if "map_of fd (PStr ''CheckedOut'') = Some checked_out"
      and "map_of fd (PStr ''CheckedOutBy'') = Some checked_out_by"
      and "map_of fd (PStr ''CheckedOutByName'') = Some checked_out_by_name"
    using assms(4-27) that
    by (simp add: docsvault_get_file_details_by_location_success_def dict_literal_def)
  show ?thesis using assms(1-3) a b
    by (simp add: docsvault_get_file_details_response_def
        docsvault_get_file_details_by_location_response_def)
qed

theorem checked_out_coercion_is_field_by_field_witness:
  "docsvault_get_file_details_response
     (fixed_parser (envelope ''0'' ''ok'' (dict [(''FileDetail'', sample_file_detail (PList [sample_index]))]))) ok_response
     = Inr (dict
         [(''file_id'', PStr ''7''),
          (''parent_id'', PStr ''3''),
          (''file_name'', PStr ''invoice.pdf''),
          (''description'', PStr ''May invoice''),
          (''flag_name'', PStr ''Red''),
          (''file_size'', PStr ''1024''),
          (''doc_type'', PStr ''pdf''),
          (''pages'', PStr ''2''),
          (''version'', PStr ''1''),
          (''version_note'', PStr ''first''),
          (''version_owner'', PStr ''5''),
          (''version_owner_name'', PStr ''ann''),
          (''modified_date'', PStr ''2023-05-02''),
          (''created_date'', PStr ''2023-05-01''),
          (''accessed_date'', PStr ''2023-05-03''),
          (''checked_out'', PBool True),
          (''checked_out_by'', PStr ''5''),
          (''checked_out_by_name'', PStr ''ann''),
          (''owner_id'', PStr ''5''),
          (''owner_name'', PStr ''ann''),
          (''location'', PStr ''Cabinet/Invoices/invoice.pdf''),
          (''doc_notes'', PStr ''none''),
          (''profile_id'', PStr ''1''),
          (''profile_name'', PStr ''Invoice''),
          (''indexes'', PList [dict [(''index'', PStr ''Invoice No''), (''index_value'', PStr ''42'')]])])
   \<and> docsvault_get_file_details_by_location_response
     (fixed_parser (envelope ''0'' ''ok'' (dict [(''FileDetail'', sample_file_detail (PList [sample_index]))]))) ok_response
     = Inr (dict
         [(''file_id'', PStr ''7''),
          (''parent_id'', PStr ''3''),
          (''file_name'', PStr ''invoice.pdf''),
          (''description'', PStr ''May invoice''),
          (''flag_name'', PStr ''Red''),
          (''file_size'', PStr ''1024''),
          (''doc_type'', PStr ''pdf''),
          (''pages'', PStr ''2''),
          (''version'', PStr ''1''),
          (''version_note'', PStr ''first''),
          (''version_owner'', PStr ''5''),
          (''version_owner_name'', PStr ''ann''),
          (''modified_date'', PStr ''2023-05-02''),
          (''created_date'', PStr ''2023-05-01''),
          (''accessed_date'', PStr ''2023-05-03''),
          (''checked_out'', PStr ''true''),
          (''checked_out_by'', PStr ''5''),
          (''checked_out_by_name'', PStr ''ann''),
          (''owner_id'', PStr ''5''),
          (''owner_name'', PStr ''ann''),
          (''location'', PStr ''Cabinet/Invoices/invoice.pdf''),
          (''doc_notes'', PStr ''none''),
          (''profile_id'', PStr ''1''),
          (''profile_name'', PStr ''Invoice''),
          (''list_of_indexes'', PList [sample_index])])"
  using checked_out_coercion_is_field_by_field [where
      r = ok_response
      and parse = 
          "fixed_parser (envelope ''0'' ''ok'' (dict [(''FileDetail'', sample_file_detail (PList [sample_index]))]))"
      and d = "envelope ''0'' ''ok'' (dict [(''FileDetail'', sample_file_detail (PList [sample_index]))])"
      and fd = "[(PStr ''FileID'', PStr ''7''), (PStr ''ParentID'', PStr ''3''),
          (PStr ''FileName'', PStr ''invoice.pdf''), (PStr ''Description'', PStr ''May invoice''),
          (PStr ''FlagName'', PStr ''Red''), (PStr ''FileSize'', PStr ''1024''),
          (PStr ''DocType'', PStr ''pdf''), (PStr ''Pages'', PStr ''2''),
          (PStr ''Version'', PStr ''1''), (PStr ''VersionNote'', PStr ''first''),
          (PStr ''VersionOwner'', PStr ''5''), (PStr ''VersionOwnerName'', PStr ''ann''),
          (PStr ''ModifiedDate'', PStr ''2023-05-02''), (PStr ''CreatedDate'', PStr ''2023-05-01''),
          (PStr ''AccessedDate'', PStr ''2023-05-03''), (PStr ''CheckedOut'', PStr ''true''),
          (PStr ''CheckedOutBy'', PStr ''5''), (PStr ''CheckedOutByName'', PStr ''ann''),
          (PStr ''OwnerID'', PStr ''5''), (PStr ''OwnerName'', PStr ''ann''),
          (PStr ''Location'', PStr ''Cabinet/Invoices/invoice.pdf''),
          (PStr ''DocNotes'', PStr ''none''), (PStr ''ProfileID'', PStr ''1''),
          (PStr ''ProfileName'', PStr ''Invoice''),
          (PStr ''ListOfIndexes'', PDict [(PStr ''Indexes'', PList [sample_index])])]"
      and li = "[(PStr ''Indexes'', PList [sample_index])]"
      and ixs = "[sample_index]"
      and ivs = "[(PStr ''Invoice No'', PStr ''42'')]"
      and checked_out = "PStr ''true''"
      and checked_out_by = "PStr ''5''"
      and checked_out_by_name = "PStr ''ann''"
      and file_id = "PStr ''7''"
      and parent_id = "PStr ''3''"
      and file_name = "PStr ''invoice.pdf''"
      and description = "PStr ''May invoice''"
      and flag_name = "PStr ''Red''"
      and file_size = "PStr ''1024''"
      and doc_type = "PStr ''pdf''"
      and pages = "PStr ''2''"
      and version = "PStr ''1''"
      and version_note = "PStr ''first''"
      and version_owner = "PStr ''5''"
      and version_owner_name = "PStr ''ann''"
      and modified_date = "PStr ''2023-05-02''"
      and created_date = "PStr ''2023-05-01''"
      and accessed_date = "PStr ''2023-05-03''"
      and owner_id = "PStr ''5''"
      and owner_name = "PStr ''ann''"
      and location = "PStr ''Cabinet/Invoices/invoice.pdf''"
      and doc_notes = "PStr ''none''"
      and profile_id = "PStr ''1''"
      and profile_name = "PStr ''Invoice''"]
  by (simp add: sample_defs sample_node_defs)

section \<open>The two definitions of \<^verbatim>\<open>docsvault_get_user_groups\<close>\<close>

lemma user_groups_success_same:
  "docsvault_get_user_groups_1_success = docsvault_get_user_groups_success"
  by (rule ext) (simp add: docsvault_get_user_groups_1_success_def docsvault_get_user_groups_success_def)

lemma user_groups_response_same:
  "docsvault_get_user_groups_1_response parse = docsvault_get_user_groups_response parse"
  by (rule ext)
    (simp only: docsvault_get_user_groups_1_response_def docsvault_get_user_groups_response_def
      user_groups_success_same)

text \<open>
  Claim C10. The module defines \<^verbatim>\<open>docsvault_get_user_groups\<close> twice: first with the
  parameters \<^verbatim>\<open>(token_id, user_id, api_url)\<close>, then with \<^verbatim>\<open>(token_id, api_url, user_id)\<close>.
  The two compute the same function up to swapping the second and third argument, for
  every transport and parser.
\<close>

theorem user_groups_definitions_agree:
  "docsvault_get_user_groups_1 http parse t u a = docsvault_get_user_groups http parse t a u"
  by (simp add: docsvault_get_user_groups_1_def docsvault_get_user_groups_def
      docsvault_get_user_groups_1_request_def docsvault_get_user_groups_request_def
      user_groups_response_same)


end
